theory Spec2Isabelle
  imports Complex_Main "HOL-Library.Multiset" "HOL-Library.Product_Lexorder"
begin

section \<open>JavaScript values used by the dashboard\<close>

text \<open>
  A JavaScript string is a sequence of UTF-16 code units. The model keeps the code units
  as natural numbers, so that \<open>trim\<close>, \<open>split\<close> and the number parsers see exactly the
  characters the engine sees (all white space characters of ECMAScript lie in the basic
  plane). \<open>js\<close> turns an ASCII literal of the source into its code units.
\<close>

type_synonym jsstring = "nat list"

definition js :: "string \<Rightarrow> jsstring" where
  "js s = map of_char s"

text \<open>
  A JavaScript number is \<open>NaN\<close>, an infinity or a finite value. Finite values are kept as
  exact rationals: a literal denotes its decimal value, where the engine stores the
  nearest double. The general statements below do not rest on that rounding: they use a
  parsed number only as the value of \<open>parseFloat\<close> or \<open>parseInt\<close> and through the test
  for \<open>NaN\<close>, which is decided by the syntax of the literal alone.
\<close>

datatype jsnum = NaN | NInf | Fin rat | PInf

definition isNaN :: "jsnum \<Rightarrow> bool" where
  "isNaN x = (x = NaN)"

text \<open>Truthiness of a number (\<open>0\<close> and \<open>NaN\<close> are falsy) and of a string (empty is falsy).\<close>

definition truthy_num :: "jsnum \<Rightarrow> bool" where
  "truthy_num x = (x \<noteq> NaN \<and> x \<noteq> Fin 0)"

definition truthy_str :: "jsstring \<Rightarrow> bool" where
  "truthy_str s = (s \<noteq> [])"

text \<open>The characters the parser looks at.\<close>

definition newline :: nat where "newline = 10"
definition comma :: nat where "comma = 44"

definition is_quote :: "nat \<Rightarrow> bool" where
  "is_quote c = (c = 39 \<or> c = 34)"

text \<open>
  White space as \<open>String.prototype.trim\<close> and the number parsers skip it: the
  \<open>WhiteSpace\<close> and \<open>LineTerminator\<close> productions of ECMAScript.
\<close>

definition is_space :: "nat \<Rightarrow> bool" where
  "is_space c =
     (c = 9 \<or> c = 10 \<or> c = 11 \<or> c = 12 \<or> c = 13 \<or> c = 32 \<or> c = 160 \<or> c = 5760
      \<or> (8192 \<le> c \<and> c \<le> 8202) \<or> c = 8232 \<or> c = 8233 \<or> c = 8239 \<or> c = 8287
      \<or> c = 12288 \<or> c = 65279)"

definition is_digit :: "nat \<Rightarrow> bool" where
  "is_digit c = (48 \<le> c \<and> c \<le> 57)"

definition trimStart :: "jsstring \<Rightarrow> jsstring" where
  "trimStart s = dropWhile is_space s"

definition trim :: "jsstring \<Rightarrow> jsstring" where
  "trim s = rev (dropWhile is_space (rev (dropWhile is_space s)))"

text \<open>
  \<open>s.split(sep)\<close> for a separator of one character: the pieces between the separators,
  empty pieces included; a string without the separator is its only piece.
\<close>

fun split :: "nat \<Rightarrow> jsstring \<Rightarrow> jsstring list" where
  "split sep [] = [[]]"
| "split sep (c # cs) =
     (if c = sep then [] # split sep cs
      else (case split sep cs of
              [] \<Rightarrow> [[c]]
            | p # ps \<Rightarrow> (c # p) # ps))"

definition str_includes :: "jsstring \<Rightarrow> nat \<Rightarrow> bool" where
  "str_includes s c = (c \<in> set s)"

text \<open>\<open>parts[i]\<close>: reading an array beyond its end gives \<open>undefined\<close>, here \<open>None\<close>.\<close>

definition elem_at :: "'a list \<Rightarrow> nat \<Rightarrow> 'a option" where
  "elem_at xs i = (if i < length xs then Some (xs ! i) else None)"

subsection \<open>parseInt and parseFloat\<close>

text \<open>The value of a digit in a radix, for the radices 10 and 16 that \<open>parseInt\<close> meets.\<close>

definition digit_val :: "nat \<Rightarrow> nat \<Rightarrow> nat option" where
  "digit_val radix c =
     (if 48 \<le> c \<and> c \<le> 57 then Some (c - 48)
      else if radix = 16 \<and> 97 \<le> c \<and> c \<le> 102 then Some (c - 87)
      else if radix = 16 \<and> 65 \<le> c \<and> c \<le> 70 then Some (c - 55)
      else None)"

definition is_radix_digit :: "nat \<Rightarrow> nat \<Rightarrow> bool" where
  "is_radix_digit radix c = (digit_val radix c \<noteq> None)"

fun digits_val :: "nat \<Rightarrow> nat \<Rightarrow> jsstring \<Rightarrow> nat" where
  "digits_val radix acc [] = acc"
| "digits_val radix acc (c # cs) =
     digits_val radix (acc * radix + (case digit_val radix c of Some d \<Rightarrow> d | None \<Rightarrow> 0)) cs"

text \<open>An optional sign in front of a literal: the sign and the rest.\<close>

fun take_sign :: "jsstring \<Rightarrow> int \<times> jsstring" where
  "take_sign [] = (1, [])"
| "take_sign (c # cs) =
     (if c = 45 then (- 1, cs) else if c = 43 then (1, cs) else (1, c # cs))"

text \<open>
  \<open>parseInt(s)\<close> without a radix: leading white space is skipped, a sign is read, a
  prefix \<open>0x\<close> or \<open>0X\<close> selects radix 16, and the longest run of digits is the value;
  no digit at all gives \<open>NaN\<close>.
\<close>

fun strip_hex :: "jsstring \<Rightarrow> nat \<times> jsstring" where
  "strip_hex (a # b # cs) =
     (if a = 48 \<and> (b = 120 \<or> b = 88) then (16, cs) else (10, a # b # cs))"
| "strip_hex cs = (10, cs)"

definition parseInt :: "jsstring \<Rightarrow> jsnum" where
  "parseInt s =
     (case take_sign (trimStart s) of (sign, u) \<Rightarrow>
        (case strip_hex u of (radix, v) \<Rightarrow>
           (let z = takeWhile (is_radix_digit radix) v in
            if z = [] then NaN
            else Fin (of_int (sign * int (digits_val radix 0 z))))))"

text \<open>
  \<open>parseFloat(s)\<close>: leading white space is skipped and the longest prefix that is a
  decimal literal (sign, \<open>Infinity\<close>, or digits with an optional fraction and an optional
  exponent) is the value; no such prefix gives \<open>NaN\<close>.
\<close>

definition is_prefix :: "jsstring \<Rightarrow> jsstring \<Rightarrow> bool" where
  "is_prefix p s = (take (length p) s = p)"

definition exponent_of :: "jsstring \<Rightarrow> int" where
  "exponent_of r =
     (case r of
        [] \<Rightarrow> 0
      | c # cs \<Rightarrow>
          (if c = 101 \<or> c = 69 then
             (case take_sign cs of (esign, ds) \<Rightarrow>
                (let eds = takeWhile is_digit ds in
                 if eds = [] then 0 else esign * int (digits_val 10 0 eds)))
           else 0))"

definition pow10 :: "int \<Rightarrow> rat" where
  "pow10 e = (if 0 \<le> e then 10 ^ nat e else 1 / 10 ^ nat (- e))"

definition parseFloat :: "jsstring \<Rightarrow> jsnum" where
  "parseFloat s =
     (case take_sign (trimStart s) of (sign, u) \<Rightarrow>
        if is_prefix (js ''Infinity'') u then (if sign < 0 then NInf else PInf)
        else
          (let ds = takeWhile is_digit u;
               r1 = dropWhile is_digit u;
               fs = (case r1 of [] \<Rightarrow> [] | c # cs \<Rightarrow> if c = 46 then takeWhile is_digit cs else []);
               r2 = (case r1 of [] \<Rightarrow> [] | c # cs \<Rightarrow> if c = 46 then dropWhile is_digit cs else r1)
           in if ds = [] \<and> fs = [] then NaN
              else Fin (of_int sign * (of_nat (digits_val 10 0 (ds @ fs)) / 10 ^ length fs)
                        * pow10 (exponent_of r2))))"

section \<open>The candidate record and the CSV parser\<close>

text \<open>
  \<open>Stock\<close> of \<open>types.ts\<close>. The optional fields \<open>reason\<close> and \<open>score\<close> are \<open>None\<close>
  when the property is \<open>undefined\<close>.
\<close>

record stock =
  symbol :: jsstring
  name :: jsstring
  sector :: jsstring
  price :: jsnum
  changePercent :: jsnum
  marketCap :: jsstring
  reason :: "jsstring option"
  score :: "jsnum option"

text \<open>
  \<open>clean\<close> of \<open>parseStockCSV\<close>: \<open>s ? s.replace(/['"]/g, '').trim() : ''\<close>. The regular
  expression has the global flag, so every quote character of the field goes, then the
  white space at both ends.
\<close>

definition clean :: "jsstring option \<Rightarrow> jsstring" where
  "clean s =
     (case s of
        None \<Rightarrow> []
      | Some t \<Rightarrow> if truthy_str t then trim (filter (\<lambda>c. \<not> is_quote c) t) else [])"

text \<open>Truthiness of \<open>parts[i]\<close>: neither \<open>undefined\<close> nor the empty string.\<close>

definition truthy_part :: "jsstring option \<Rightarrow> bool" where
  "truthy_part p = (case p of None \<Rightarrow> False | Some t \<Rightarrow> truthy_str t)"

text \<open>
  \<open>parseInt(parts[6])\<close> on the raw field, as the expression for \<open>reason\<close> calls it;
  it is only evaluated where \<open>parts[6]\<close> is truthy.
\<close>

definition parseInt_part :: "jsstring option \<Rightarrow> jsnum" where
  "parseInt_part p = (case p of None \<Rightarrow> NaN | Some t \<Rightarrow> parseInt t)"

text \<open>The object literal pushed for a line whose price is a number.\<close>

definition make_stock :: "jsstring list \<Rightarrow> jsnum \<Rightarrow> jsnum \<Rightarrow> stock" where
  "make_stock parts price_v change =
     \<lparr> symbol = clean (elem_at parts 0),
       name = clean (elem_at parts 1),
       sector = clean (elem_at parts 2),
       price = price_v,
       changePercent = (if isNaN change then Fin 0 else change),
       marketCap = clean (elem_at parts 5),
       reason =
         (if truthy_part (elem_at parts 7) then Some (clean (elem_at parts 7))
          else if truthy_part (elem_at parts 6) \<and> isNaN (parseInt_part (elem_at parts 6))
               then Some (clean (elem_at parts 6))
               else None),
       score =
         Some (if truthy_part (elem_at parts 6) then parseInt (clean (elem_at parts 6)) else Fin 0) \<rparr>"

text \<open>The body of the loop over the lines: \<open>stocks\<close> is the array being filled.\<close>

definition parse_line :: "jsstring \<Rightarrow> stock list \<Rightarrow> stock list" where
  "parse_line line stocks =
     (let parts = split comma line in
      if 6 \<le> length parts then
        (let price_v = parseFloat (clean (elem_at parts 3));
             change = parseFloat (clean (elem_at parts 4))
         in if \<not> isNaN price_v then stocks @ [make_stock parts price_v change] else stocks)
      else stocks)"

fun parse_loop :: "jsstring list \<Rightarrow> stock list \<Rightarrow> stock list" where
  "parse_loop [] stocks = stocks"
| "parse_loop (line # rest) stocks = parse_loop rest (parse_line line stocks)"

definition parseStockCSV :: "jsstring \<Rightarrow> stock list" where
  "parseStockCSV txt =
     parse_loop (filter (\<lambda>line. str_includes line comma) (split newline txt)) []"

section \<open>The external service\<close>

text \<open>
  Every query goes through \<open>ai.models.generateContent\<close>. A request is kept as the kind
  of query with the values spliced into its prompt; the fixed words of the prompt, the
  date stamp and the model settings carry no control flow and are left out. The service
  is any function from the requests issued so far and the present request to an outcome:
  it may throw, or return a response whose text and grounding chunks may be missing.
  The list of issued requests is the only state of the service layer.
\<close>

datatype request =
    SectorScan jsstring
  | Snapshot
  | Gather jsstring jsnum jsstring
  | Extract jsstring jsnum jsstring

record webinfo =
  web_title :: "jsstring option"
  web_uri :: "jsstring option"

record chunk =
  web :: "webinfo option"

record response =
  resp_text :: "jsstring option"
  groundingChunks :: "chunk list option"

datatype outcome = Throws | Returns response

type_synonym service = "request list \<Rightarrow> request \<Rightarrow> outcome"

definition generateContent :: "service \<Rightarrow> request \<Rightarrow> request list \<Rightarrow> outcome \<times> request list" where
  "generateContent ai req calls = (ai calls req, calls @ [req])"

text \<open>What a rejected promise carries.\<close>

datatype error =
    MissingApiKey
  | ServiceError
  | NoResponse
  | JsonSyntaxError
  | TypeError

text \<open>\<open>response.text || ''\<close>.\<close>

definition text_or_empty :: "response \<Rightarrow> jsstring" where
  "text_or_empty r = (case resp_text r of None \<Rightarrow> [] | Some t \<Rightarrow> t)"

subsection \<open>Sector scan and snapshot\<close>

text \<open>
  Both return at once with the empty list when the key is the empty string; otherwise the
  call and the parsing sit in a \<open>try\<close> whose handler returns the empty list. The result
  is a sum so that a rejected promise would show as \<open>Inl\<close>.
\<close>

definition scanMarketSector ::
  "jsstring \<Rightarrow> service \<Rightarrow> jsstring \<Rightarrow> request list \<Rightarrow> (error + stock list) \<times> request list" where
  "scanMarketSector apiKey ai sectorName calls =
     (if \<not> truthy_str apiKey then (Inr [], calls)
      else
        (case generateContent ai (SectorScan sectorName) calls of
           (Throws, calls') \<Rightarrow> (Inr [], calls')
         | (Returns r, calls') \<Rightarrow> (Inr (parseStockCSV (text_or_empty r)), calls')))"

definition fetchMarketSnapshot ::
  "jsstring \<Rightarrow> service \<Rightarrow> request list \<Rightarrow> (error + stock list) \<times> request list" where
  "fetchMarketSnapshot apiKey ai calls =
     (if \<not> truthy_str apiKey then (Inr [], calls)
      else
        (case generateContent ai Snapshot calls of
           (Throws, calls') \<Rightarrow> (Inr [], calls')
         | (Returns r, calls') \<Rightarrow> (Inr (parseStockCSV (text_or_empty r)), calls')))"

subsection \<open>The two-phase analysis\<close>

datatype ValuationMethod = DCF | RELATIVE | GRAHAM

datatype SentimentType = POSITIVE | NEUTRAL | NEGATIVE

datatype Recommendation = BUY | HOLD | SELL

record ValuationMetric =
  metric_method :: ValuationMethod
  metric_value :: jsnum
  details :: jsstring

record Source =
  title :: jsstring
  uri :: jsstring

record StockAnalysis =
  companyName :: jsstring
  currentPrice :: jsnum
  intrinsicValue :: jsnum
  marginOfSafety :: jsnum
  recommendation :: Recommendation
  valuationMetrics :: "ValuationMetric list"
  sentimentScore :: jsnum
  sentimentLabel :: SentimentType
  sentimentSummary :: jsstring
  sectorMomentum :: jsstring
  strengths :: "jsstring list"
  risks :: "jsstring list"
  sources :: "Source list"

text \<open>
  \<open>JSON.parse(text) as StockAnalysis\<close>: the parser of the engine is a parameter. It
  throws a syntax error, or gives a value that is not an object (assigning \<open>sources\<close> to
  it throws in a module, which is strict code), or gives an object, read at the type the
  source asserts for it.
\<close>

datatype parsed = SyntaxError | NotAnObject | Object StockAnalysis

type_synonym json_parser = "jsstring \<Rightarrow> parsed"

text \<open>\<open>x || d\<close> for an optional string.\<close>

definition str_or :: "jsstring option \<Rightarrow> jsstring \<Rightarrow> jsstring" where
  "str_or x d = (case x of None \<Rightarrow> d | Some t \<Rightarrow> if truthy_str t then t else d)"

text \<open>The citations read off the grounding chunks of the gather response.\<close>

definition sources_of :: "response \<Rightarrow> Source list" where
  "sources_of r =
     (let chunks = (case groundingChunks r of None \<Rightarrow> [] | Some cs \<Rightarrow> cs) in
      map (\<lambda>w. \<lparr> title = str_or (web_title w) (js ''Source''),
                 uri = str_or (web_uri w) (js ''#'') \<rparr>)
          (List.map_filter web chunks))"

definition search_unavailable :: jsstring where
  "search_unavailable = js ''Search unavailable. Use internal knowledge base.''"

definition no_search_data :: jsstring where
  "no_search_data = js ''No specific search data found.''"

text \<open>
  Step 1, the first \<open>try\<close>: the search context, the sources and the requests issued.
  \<open>sources\<close> starts empty and the handler does not touch it.
\<close>

definition gather_phase ::
  "service \<Rightarrow> jsstring \<Rightarrow> jsnum \<Rightarrow> jsstring \<Rightarrow> request list
     \<Rightarrow> jsstring \<times> Source list \<times> request list" where
  "gather_phase ai symbol_v currentPrice_v sector_v calls =
     (case generateContent ai (Gather symbol_v currentPrice_v sector_v) calls of
        (Throws, calls') \<Rightarrow> (search_unavailable, [], calls')
      | (Returns r, calls') \<Rightarrow> (str_or (resp_text r) no_search_data, sources_of r, calls'))"

text \<open>Step 2, the second \<open>try\<close>: its handler logs and throws the error again.\<close>

definition extract_phase ::
  "service \<Rightarrow> json_parser \<Rightarrow> jsstring \<Rightarrow> jsnum \<Rightarrow> jsstring \<Rightarrow> Source list \<Rightarrow> request list
     \<Rightarrow> (error + StockAnalysis) \<times> request list" where
  "extract_phase ai JSON_parse symbol_v currentPrice_v searchContext srcs calls =
     (case generateContent ai (Extract symbol_v currentPrice_v searchContext) calls of
        (Throws, calls') \<Rightarrow> (Inl ServiceError, calls')
      | (Returns r, calls') \<Rightarrow>
          (case resp_text r of
             None \<Rightarrow> (Inl NoResponse, calls')
           | Some t \<Rightarrow>
               if \<not> truthy_str t then (Inl NoResponse, calls')
               else
                 (case JSON_parse t of
                    SyntaxError \<Rightarrow> (Inl JsonSyntaxError, calls')
                  | NotAnObject \<Rightarrow> (Inl TypeError, calls')
                  | Object a \<Rightarrow> (Inr (a\<lparr>sources := srcs\<rparr>), calls'))))"

definition analyzeStockWithGemini ::
  "jsstring \<Rightarrow> service \<Rightarrow> json_parser \<Rightarrow> jsstring \<Rightarrow> jsnum \<Rightarrow> jsstring \<Rightarrow> request list
     \<Rightarrow> (error + StockAnalysis) \<times> request list" where
  "analyzeStockWithGemini apiKey ai JSON_parse symbol_v currentPrice_v sector_v calls =
     (if \<not> truthy_str apiKey then (Inl MissingApiKey, calls)
      else
        (case gather_phase ai symbol_v currentPrice_v sector_v calls of
           (searchContext, srcs, calls') \<Rightarrow>
             extract_phase ai JSON_parse symbol_v currentPrice_v searchContext srcs calls'))"

section \<open>The dashboard\<close>

datatype view_kind = Dashboard | Detail

record DashboardState =
  stocks :: "stock list"
  selectedStock :: "stock option"
  analysis :: "StockAnalysis option"
  loading :: bool
  view :: view_kind
  scanMode :: bool
  progress :: int
  scanStatus :: jsstring

text \<open>
  The component with its surroundings: the present state, every state an updater has
  produced so far in order, the requests issued to the service, and the alerts shown.
\<close>

record app =
  ui :: DashboardState
  commits :: "DashboardState list"
  calls :: "request list"
  alerts :: "jsstring list"

definition initial_state :: DashboardState where
  "initial_state =
     \<lparr> stocks = [], selectedStock = None, analysis = None, loading = True,
       view = Dashboard, scanMode = False, progress = 0, scanStatus = [] \<rparr>"

definition initial_app :: app where
  "initial_app = \<lparr> ui = initial_state, commits = [], calls = [], alerts = [] \<rparr>"

text \<open>\<open>setState(prev => f(prev))\<close>.\<close>

definition setState :: "(DashboardState \<Rightarrow> DashboardState) \<Rightarrow> app \<Rightarrow> app" where
  "setState f w = w\<lparr> ui := f (ui w), commits := commits w @ [f (ui w)] \<rparr>"

definition alert :: "jsstring \<Rightarrow> app \<Rightarrow> app" where
  "alert msg w = w\<lparr> alerts := alerts w @ [msg] \<rparr>"

subsection \<open>Sorting and rounding of the engine\<close>

text \<open>
  \<open>Math.round\<close> rounds to the nearest integer, halves upwards. The quotient
  \<open>i / sectors.length\<close> and its product with 100 are computed exactly here; the doubles
  of the engine differ from them by far less than one half.
\<close>

definition Math_round :: "rat \<Rightarrow> int" where
  "Math_round x = \<lfloor>x + 1 / 2\<rfloor>"

text \<open>Subtraction of numbers; the sign of a finite difference is that of the exact one.\<close>

fun js_sub :: "jsnum \<Rightarrow> jsnum \<Rightarrow> jsnum" where
  "js_sub NaN y = NaN"
| "js_sub x NaN = NaN"
| "js_sub (Fin a) (Fin b) = Fin (a - b)"
| "js_sub PInf PInf = NaN"
| "js_sub NInf NInf = NaN"
| "js_sub PInf y = PInf"
| "js_sub NInf y = NInf"
| "js_sub (Fin a) PInf = NInf"
| "js_sub (Fin a) NInf = PInf"

text \<open>
  \<open>Array.prototype.sort(comparefn)\<close> is a stable sort: \<open>a\<close> goes behind \<open>b\<close> only
  where \<open>comparefn(a, b)\<close> is greater than zero, and a result \<open>NaN\<close> counts as zero.
  Stable insertion is the model.
\<close>

definition cmp_gt0 :: "jsnum \<Rightarrow> bool" where
  "cmp_gt0 v = (case v of PInf \<Rightarrow> True | Fin q \<Rightarrow> 0 < q | NaN \<Rightarrow> False | NInf \<Rightarrow> False)"

fun js_insert :: "('a \<Rightarrow> 'a \<Rightarrow> jsnum) \<Rightarrow> 'a \<Rightarrow> 'a list \<Rightarrow> 'a list" where
  "js_insert cmp x [] = [x]"
| "js_insert cmp x (y # ys) =
     (if cmp_gt0 (cmp x y) then y # js_insert cmp x ys else x # y # ys)"

definition js_sort :: "('a \<Rightarrow> 'a \<Rightarrow> jsnum) \<Rightarrow> 'a list \<Rightarrow> 'a list" where
  "js_sort cmp xs = foldr (js_insert cmp) xs []"

subsection \<open>Scanning the sectors\<close>

definition sectors :: "jsstring list" where
  "sectors =
     [js ''Financial Services & Banking'',
      js ''IT & Technology'',
      js ''Automobile & Consumer Goods'',
      js ''Energy, Power & Infrastructure'',
      js ''Pharma & Healthcare'']"

text \<open>\<open>s.score || 0\<close> and the comparator \<open>(a, b) => (b.score || 0) - (a.score || 0)\<close>.\<close>

definition score_or0 :: "stock \<Rightarrow> jsnum" where
  "score_or0 s = (case score s of None \<Rightarrow> Fin 0 | Some x \<Rightarrow> if truthy_num x then x else Fin 0)"

definition score_cmp :: "stock \<Rightarrow> stock \<Rightarrow> jsnum" where
  "score_cmp a b = js_sub (score_or0 b) (score_or0 a)"

text \<open>
  The imported \<open>scanMarketSector\<close>, with the key and the service it closes over, is the
  parameter \<open>scan\<close>.
\<close>

type_synonym scanner = "jsstring \<Rightarrow> request list \<Rightarrow> (error + stock list) \<times> request list"

text \<open>
  The \<open>for\<close> loop: \<open>n_sectors\<close> is \<open>sectors.length\<close>, the list holds the sectors from
  index \<open>i\<close> on. A rejected scan leaves the loop for the handler of the \<open>try\<close>.
\<close>

fun scan_loop ::
  "scanner \<Rightarrow> nat \<Rightarrow> jsstring list \<Rightarrow> nat \<Rightarrow> stock list \<Rightarrow> app \<Rightarrow> (error + stock list) \<times> app" where
  "scan_loop scan n_sectors [] i allPicks w = (Inr allPicks, w)"
| "scan_loop scan n_sectors (sector_v # rest) i allPicks w =
     (let w1 = setState (\<lambda>prev. prev\<lparr> progress := Math_round ((of_nat i / of_nat n_sectors) * 100),
                                       scanStatus := js ''Analyzing '' @ sector_v @ js ''...'' \<rparr>) w
      in case scan sector_v (calls w1) of
           (Inl e, calls') \<Rightarrow> (Inl e, w1\<lparr> calls := calls' \<rparr>)
         | (Inr sectorPicks, calls') \<Rightarrow>
             scan_loop scan n_sectors rest (Suc i) (allPicks @ sectorPicks) (w1\<lparr> calls := calls' \<rparr>))"

definition handleScanForValue :: "scanner \<Rightarrow> app \<Rightarrow> app" where
  "handleScanForValue scan w =
     (let w0 = setState (\<lambda>prev. prev\<lparr> loading := True, scanMode := True, progress := 0,
                                       stocks := [],
                                       scanStatus := js ''Initializing Nifty 200 Scan...'' \<rparr>) w
      in case scan_loop scan (length sectors) sectors 0 [] w0 of
           (Inr allPicks, w1) \<Rightarrow>
             (let topPicks = take 20 (js_sort score_cmp allPicks)
              in setState (\<lambda>prev. prev\<lparr> stocks := topPicks, loading := False, progress := 100,
                                          scanStatus := js ''Scan Complete'' \<rparr>) w1)
         | (Inl e, w1) \<Rightarrow>
             setState (\<lambda>prev. prev\<lparr> loading := False, scanMode := False \<rparr>)
               (alert (js ''Scan failed. Please try again.'') w1))"

subsection \<open>Analysing one stock\<close>

text \<open>
  The imported \<open>analyzeStockWithGemini\<close>, with what it closes over, is the parameter
  \<open>analyze\<close>.
\<close>

type_synonym analyzer =
  "jsstring \<Rightarrow> jsnum \<Rightarrow> jsstring \<Rightarrow> request list \<Rightarrow> (error + StockAnalysis) \<times> request list"

text \<open>
  The updater of the success path. With no selected stock the expression for \<open>sector\<close>
  reads a property of \<open>null\<close> and throws.
\<close>

definition success_update ::
  "StockAnalysis \<Rightarrow> jsnum \<Rightarrow> DashboardState \<Rightarrow> error + DashboardState" where
  "success_update a price_v prev =
     (case selectedStock prev of
        None \<Rightarrow> Inl TypeError
      | Some s \<Rightarrow>
          Inr (prev\<lparr> loading := False,
                     analysis := Some a,
                     selectedStock := Some (s\<lparr>
                       price := (if truthy_num (currentPrice a) then currentPrice a
                                 else if truthy_num price_v then price_v
                                 else price s),
                       name := (if truthy_str (companyName a) then companyName a else name s),
                       sector := (if sector s = js ''Unknown'' then js ''Analysed''
                                  else sector s) \<rparr>) \<rparr>))"

definition failure_update :: "DashboardState \<Rightarrow> DashboardState" where
  "failure_update prev = prev\<lparr> loading := False, view := Dashboard \<rparr>"

text \<open>\<open>analyzeStock\<close> up to its \<open>await\<close>, and its continuation once the promise settles.\<close>

definition analyzeStock_begin :: "app \<Rightarrow> app" where
  "analyzeStock_begin w = setState (\<lambda>prev. prev\<lparr> loading := True, view := Detail \<rparr>) w"

definition analyzeStock_settle :: "error + StockAnalysis \<Rightarrow> jsnum \<Rightarrow> app \<Rightarrow> error + app" where
  "analyzeStock_settle r price_v w =
     (case r of
        Inr a \<Rightarrow>
          (case success_update a price_v (ui w) of
             Inl e \<Rightarrow> Inl e
           | Inr st \<Rightarrow> Inr (setState (\<lambda>prev. st) w))
      | Inl e \<Rightarrow>
          Inr (alert (js ''Failed to analyze stock. Please check your API key.'')
                 (setState failure_update w)))"

definition analyzeStock :: "analyzer \<Rightarrow> jsstring \<Rightarrow> jsnum \<Rightarrow> jsstring \<Rightarrow> app \<Rightarrow> error + app" where
  "analyzeStock analyze symbol_v price_v sector_v w =
     (let w1 = analyzeStock_begin w in
      case analyze symbol_v price_v sector_v (calls w1) of
        (r, calls') \<Rightarrow> analyzeStock_settle r price_v (w1\<lparr> calls := calls' \<rparr>))"

definition select_stock :: "stock \<Rightarrow> app \<Rightarrow> app" where
  "select_stock st w = setState (\<lambda>prev. prev\<lparr> selectedStock := Some st \<rparr>) w"

definition handleStockClick :: "analyzer \<Rightarrow> stock \<Rightarrow> app \<Rightarrow> error + app" where
  "handleStockClick analyze st w =
     analyzeStock analyze (symbol st) (price st) (sector st) (select_stock st w)"

definition tempStock :: "jsstring \<Rightarrow> stock" where
  "tempStock ticker =
     \<lparr> symbol = ticker, name = ticker, sector = js ''Unknown'', price = Fin 0,
       changePercent = Fin 0, marketCap = [], reason = None, score = None \<rparr>"

definition handleSearchSelect :: "analyzer \<Rightarrow> jsstring \<Rightarrow> app \<Rightarrow> error + app" where
  "handleSearchSelect analyze ticker w =
     analyzeStock analyze ticker (Fin 0) (js ''Unknown'') (select_stock (tempStock ticker) w)"

definition handleBack :: "app \<Rightarrow> app" where
  "handleBack w =
     setState (\<lambda>prev. prev\<lparr> view := Dashboard, selectedStock := None, analysis := None \<rparr>) w"

section \<open>Notions of the specification\<close>

text \<open>
  The specification speaks of stripping the quote characters and the white space at the
  two ends of a field and nothing else. \<open>strip_ends\<close> does exactly that, to be compared
  with \<open>clean\<close>.
\<close>

definition is_quote_or_space :: "nat \<Rightarrow> bool" where
  "is_quote_or_space c = (is_quote c \<or> is_space c)"

definition strip_ends :: "jsstring \<Rightarrow> jsstring" where
  "strip_ends s = rev (dropWhile is_quote_or_space (rev (dropWhile is_quote_or_space s)))"

text \<open>What one line of the text contributes to the result, taken alone.\<close>

definition line_candidates :: "jsstring \<Rightarrow> stock list" where
  "line_candidates line = (if str_includes line comma then parse_line line [] else [])"





section \<open>Concrete runs\<close>

text \<open>An analysis as the extract phase may return it, and services for the examples.\<close>

definition demo_analysis :: StockAnalysis where
  "demo_analysis =
     \<lparr> companyName = js ''Tata Consultancy Services'', currentPrice = Fin 3500,
       intrinsicValue = Fin 4000, marginOfSafety = Fin 12, recommendation = BUY,
       valuationMetrics = [], sentimentScore = Fin 40, sentimentLabel = POSITIVE,
       sentimentSummary = [], sectorMomentum = [], strengths = [], risks = [],
       sources = [] \<rparr>"

definition gather_down :: service where
  "gather_down cs req =
     (case req of
        Gather s p t \<Rightarrow> Throws
      | _ \<Rightarrow> Returns \<lparr> resp_text = Some (js ''{}''), groundingChunks = None \<rparr>)"

text \<open>
  What the parser of the extract response gives in the examples: an object that already
  carries a source list of its own.
\<close>

definition cited_analysis :: StockAnalysis where
  "cited_analysis = demo_analysis\<lparr> sources := [\<lparr> title = js ''stale'', uri = js ''stale'' \<rparr>] \<rparr>"

text \<open>
  A service whose gather response carries three grounding chunks: one with title and
  address, one without a \<open>web\<close> entry, one whose \<open>web\<close> entry has no title and an
  empty address.
\<close>

definition gather_up :: service where
  "gather_up cs req =
     (case req of
        Gather s p t \<Rightarrow>
          Returns \<lparr> resp_text = Some (js ''TCS trades near 3500''),
                    groundingChunks = Some
                      [\<lparr> web = Some \<lparr> web_title = Some (js ''Reuters''),
                                      web_uri = Some (js ''https://reuters.example/tcs'') \<rparr> \<rparr>,
                       \<lparr> web = None \<rparr>,
                       \<lparr> web = Some \<lparr> web_title = None, web_uri = Some [] \<rparr> \<rparr>] \<rparr>
      | _ \<Rightarrow> Returns \<lparr> resp_text = Some (js ''{}''), groundingChunks = None \<rparr>)"

text \<open>
  \<open>handleSearchSelect\<close> up to the \<open>await\<close> of the analysis it starts. The search box is
  shown whenever the list view is, also while an analysis is still in flight, and no
  operation is ever cancelled; so a second analysis can be started after \<open>handleBack\<close>
  while the first has not settled, and the two settle in either order.
\<close>

definition search_begin :: "jsstring \<Rightarrow> app \<Rightarrow> app" where
  "search_begin ticker w = analyzeStock_begin (select_stock (tempStock ticker) w)"

definition settle_then :: "error + app \<Rightarrow> (app \<Rightarrow> error + app) \<Rightarrow> error + app" where
  "settle_then r f = (case r of Inl e \<Rightarrow> Inl e | Inr w \<Rightarrow> f w)"



text \<open>
  Search TCS, go back, search TCS again; the first analysis settles with the price 3500,
  then the second settles with an extracted price of zero.
\<close>

definition stale_price_run :: "error + app" where
  "stale_price_run =
     settle_then
       (analyzeStock_settle (Inr demo_analysis) (Fin 0)
          (search_begin (js ''TCS'') (handleBack (search_begin (js ''TCS'') initial_app))))
       (analyzeStock_settle (Inr (demo_analysis\<lparr>currentPrice := Fin 0\<rparr>)) (Fin 0))"

text \<open>The state in which the result of the second analysis of that run is committed.\<close>

definition stale_price_state :: app where
  "stale_price_state =
     projr (analyzeStock_settle (Inr demo_analysis) (Fin 0)
              (search_begin (js ''TCS'') (handleBack (search_begin (js ''TCS'') initial_app))))"

text \<open>
  A scanner for the examples: every sector yields a pick without a score and a pick whose
  score is 0 or 1, by the parity of the number of requests issued before.
\<close>

definition demo_scan :: scanner where
  "demo_scan s cs =
     (Inr [tempStock s, (tempStock s)\<lparr> score := Some (Fin (of_nat (length cs mod 2))) \<rparr>],
      cs @ [SectorScan s])"



text \<open>Lines and texts for the examples of the parser.\<close>

definition quoted_name_line :: jsstring where
  "quoted_name_line = js ''A,O'' @ [39] @ js ''Neil,Z,10.5,1.2,1T''"

definition demo_line :: jsstring where
  "demo_line = js ''HDFCBANK, '' @ [34] @ js ''HDFC Bank'' @ [34] @ js '' ,Financials,1450.00,n/a,11.5T''"

definition six_field_line :: jsstring where
  "six_field_line = js ''X,Y,Z,10.5,1.2,1T''"

definition legacy_line :: jsstring where
  "legacy_line = js ''X,Y,Z,10.5,1.2,1T,Good pick''"

definition empty_score_line :: jsstring where
  "empty_score_line = js ''X,Y,Z,10.5,1.2,1T,''"

definition scored_line :: jsstring where
  "scored_line = js ''X,Y,Z,10.5,1.2,1T,87, Strong fundamentals''"

definition garbage_text :: jsstring where
  "garbage_text = js ''Here are the picks:'' @ [10] @ js ''X,Y,Z,10.5,1.2,1T'' @ [10]
     @ js ''a,b'' @ [10] @ js ''P,Q,R,n/a,1,2'' @ [10] @ js ''M,N,O,7,x,1B''"

section \<open>Missing credential\<close>

text \<open>
  Claim C8. With the empty key the sector scan and the snapshot return the empty list and
  the analysis is rejected with the missing-credential error; in all three the list of
  issued requests is returned as it was, so no external call is made.
\<close>

theorem missing_credential_short_circuits:
  "scanMarketSector [] ai sectorName cs = (Inr [], cs)
   \<and> fetchMarketSnapshot [] ai cs = (Inr [], cs)
   \<and> analyzeStockWithGemini [] ai JSON_parse symbol_v price_v sector_v cs = (Inl MissingApiKey, cs)"
  by (simp add: scanMarketSector_def fetchMarketSnapshot_def analyzeStockWithGemini_def
      truthy_str_def)

section \<open>The scan queries never reject\<close>

lemma scanMarketSector_resolves:
  "\<exists>picks cs'. scanMarketSector apiKey ai sectorName cs = (Inr picks, cs')"
  by (simp add: scanMarketSector_def generateContent_def split: outcome.splits)

lemma fetchMarketSnapshot_resolves:
  "\<exists>picks cs'. fetchMarketSnapshot apiKey ai cs = (Inr picks, cs')"
  by (simp add: fetchMarketSnapshot_def generateContent_def split: outcome.splits)

lemma scanMarketSector_throws_empty:
  "ai cs (SectorScan sectorName) = Throws \<Longrightarrow> fst (scanMarketSector apiKey ai sectorName cs) = Inr []"
  by (simp add: scanMarketSector_def generateContent_def)

lemma fetchMarketSnapshot_throws_empty:
  "ai cs Snapshot = Throws \<Longrightarrow> fst (fetchMarketSnapshot apiKey ai cs) = Inr []"
  by (simp add: fetchMarketSnapshot_def generateContent_def)

lemma alerts_setState [simp]: "alerts (setState f w) = alerts w"
  by (simp add: setState_def)

lemma calls_setState [simp]: "calls (setState f w) = calls w"
  by (simp add: setState_def)

lemma ui_setState [simp]: "ui (setState f w) = f (ui w)"
  by (simp add: setState_def)

lemma commits_setState [simp]: "commits (setState f w) = commits w @ [f (ui w)]"
  by (simp add: setState_def)

lemma scan_loop_resolves:
  assumes "\<forall>s cs. \<exists>picks cs'. scan s cs = (Inr picks, cs')"
  shows "\<exists>picks w'. scan_loop scan n ss i acc w = (Inr picks, w') \<and> alerts w' = alerts w"
proof (induction ss arbitrary: i acc w)
  case Nil
  show ?case by simp
next
  case (Cons s ss)
  let ?w1 = "setState (\<lambda>prev. prev\<lparr> progress := Math_round ((of_nat i / of_nat n) * 100),
                                     scanStatus := js ''Analyzing '' @ s @ js ''...'' \<rparr>) w"
  obtain picks cs' where sc: "scan s (calls ?w1) = (Inr picks, cs')"
    using assms by blast
  from Cons.IH [of "Suc i" "acc @ picks" "?w1\<lparr>calls := cs'\<rparr>"]
  obtain all w' where
    "scan_loop scan n ss (Suc i) (acc @ picks) (?w1\<lparr>calls := cs'\<rparr>) = (Inr all, w')"
    "alerts w' = alerts w"
    by auto
  with sc show ?case by (simp add: Let_def)
qed

lemma handleScanForValue_completes:
  assumes "\<forall>s cs. \<exists>picks cs'. scan s cs = (Inr picks, cs')"
  shows "alerts (handleScanForValue scan w) = alerts w
         \<and> loading (ui (handleScanForValue scan w)) = False
         \<and> progress (ui (handleScanForValue scan w)) = 100
         \<and> scanStatus (ui (handleScanForValue scan w)) = js ''Scan Complete''"
proof -
  let ?w0 = "setState (\<lambda>prev. prev\<lparr> loading := True, scanMode := True, progress := 0,
                                       stocks := [],
                                       scanStatus := js ''Initializing Nifty 200 Scan...'' \<rparr>) w"
  obtain all w1 where
    l: "scan_loop scan (length sectors) sectors 0 [] ?w0 = (Inr all, w1)" and a: "alerts w1 = alerts ?w0"
    using scan_loop_resolves [OF assms] by blast
  show ?thesis using l a by (simp add: handleScanForValue_def Let_def)
qed

text \<open>
  Claim C10. Whatever the key, the sector and the service do, the sector scan and the
  snapshot resolve (they never reject); where the service throws they resolve to the
  empty list, so that sector adds nothing to the accumulated picks; and a scan run with
  \<open>scanMarketSector\<close> never enters the handler of the orchestrator: no alert is shown
  and the last update is the one of the completed scan.
\<close>

theorem scan_queries_never_reject:
  "(\<exists>picks. fst (scanMarketSector apiKey ai sectorName cs) = Inr picks)
   \<and> (\<exists>picks. fst (fetchMarketSnapshot apiKey ai cs) = Inr picks)
   \<and> (ai cs (SectorScan sectorName) = Throws \<longrightarrow>
        fst (scanMarketSector apiKey ai sectorName cs) = Inr [])
   \<and> (ai cs Snapshot = Throws \<longrightarrow> fst (fetchMarketSnapshot apiKey ai cs) = Inr [])
   \<and> alerts (handleScanForValue (scanMarketSector apiKey ai) w) = alerts w
   \<and> loading (ui (handleScanForValue (scanMarketSector apiKey ai) w)) = False
   \<and> progress (ui (handleScanForValue (scanMarketSector apiKey ai) w)) = 100
   \<and> scanStatus (ui (handleScanForValue (scanMarketSector apiKey ai) w)) = js ''Scan Complete''"
proof -
  have a: "\<exists>picks. fst (scanMarketSector apiKey ai sectorName cs) = Inr picks"
    using scanMarketSector_resolves [of apiKey ai sectorName cs] by auto
  have b: "\<exists>picks. fst (fetchMarketSnapshot apiKey ai cs) = Inr picks"
    using fetchMarketSnapshot_resolves [of apiKey ai cs] by auto
  have "\<forall>s cs. \<exists>picks cs'. scanMarketSector apiKey ai s cs = (Inr picks, cs')"
    using scanMarketSector_resolves by blast
  note c = handleScanForValue_completes [OF this, of w]
  show ?thesis
    using a b c scanMarketSector_throws_empty fetchMarketSnapshot_throws_empty by blast
qed

theorem scan_queries_never_reject_witness:
  "(\<lambda>cs req. Throws) [] (SectorScan (js ''IT & Technology'')) = Throws
   \<and> (\<lambda>cs req. Throws) [] Snapshot = Throws
   \<and> fst (scanMarketSector (js ''key'') (\<lambda>cs req. Throws) (js ''IT & Technology'') []) = Inr []
   \<and> fst (fetchMarketSnapshot (js ''key'') (\<lambda>cs req. Throws) []) = Inr []
   \<and> alerts (handleScanForValue (scanMarketSector (js ''key'') (\<lambda>cs req. Throws)) initial_app) = []"
  using scan_queries_never_reject [of "js ''key''" "\<lambda>cs req. Throws" "js ''IT & Technology''" "[]" initial_app]
  by (simp add: initial_app_def)

section \<open>The two phases of the analysis\<close>

lemma gather_phase_throws:
  "ai cs (Gather symbol_v price_v sector_v) = Throws \<Longrightarrow>
   gather_phase ai symbol_v price_v sector_v cs
     = (search_unavailable, [], cs @ [Gather symbol_v price_v sector_v])"
  by (simp add: gather_phase_def generateContent_def)

lemma gather_phase_sources:
  "fst (snd (gather_phase ai symbol_v price_v sector_v cs))
     = (case ai cs (Gather symbol_v price_v sector_v) of Throws \<Rightarrow> [] | Returns r \<Rightarrow> sources_of r)"
  by (simp add: gather_phase_def generateContent_def split: outcome.splits)

lemma extract_phase_calls:
  "snd (extract_phase ai JSON_parse symbol_v price_v ctx srcs cs)
     = cs @ [Extract symbol_v price_v ctx]"
  by (simp add: extract_phase_def generateContent_def
      split: outcome.splits option.splits parsed.splits)

lemma extract_phase_sources:
  "fst (extract_phase ai JSON_parse symbol_v price_v ctx srcs cs) = Inr a \<Longrightarrow> sources a = srcs"
  by (auto simp: extract_phase_def generateContent_def
      split: outcome.splits option.splits parsed.splits if_splits)

lemma search_unavailable_text:
  "search_unavailable = js ''Search unavailable. Use internal knowledge base.''"
  by (simp add: search_unavailable_def)

lemma str_or_explicit:
  "str_or x d = (case x of None \<Rightarrow> d | Some t \<Rightarrow> if t = [] then d else t)"
  by (simp add: str_or_def truthy_str_def split: option.splits)

lemma sources_of_explicit:
  "sources_of r =
     map (\<lambda>w. \<lparr> title = (case web_title w of None \<Rightarrow> js ''Source''
                            | Some t \<Rightarrow> if t = [] then js ''Source'' else t),
                uri = (case web_uri w of None \<Rightarrow> js ''#''
                          | Some u \<Rightarrow> if u = [] then js ''#'' else u) \<rparr>)
         (List.map_filter web (case groundingChunks r of None \<Rightarrow> [] | Some chs \<Rightarrow> chs))"
  by (simp add: sources_of_def str_or_explicit)

lemma extract_phase_object:
  assumes "ai cs (Extract symbol_v price_v ctx) = Returns r" and "resp_text r = Some t"
    and "t \<noteq> []" and "JSON_parse t = Object obj"
  shows "fst (extract_phase ai JSON_parse symbol_v price_v ctx srcs cs) = Inr (obj\<lparr>sources := srcs\<rparr>)"
  using assms by (simp add: extract_phase_def generateContent_def truthy_str_def)

lemma extract_phase_result:
  assumes "fst (extract_phase ai JSON_parse symbol_v price_v ctx srcs cs) = Inr a"
  shows "\<exists>r t obj. ai cs (Extract symbol_v price_v ctx) = Returns r \<and> resp_text r = Some t
           \<and> t \<noteq> [] \<and> JSON_parse t = Object obj \<and> a = obj\<lparr>sources := srcs\<rparr>"
  using assms
  by (auto simp: extract_phase_def generateContent_def truthy_str_def
      split: outcome.splits option.splits parsed.splits if_splits)

text \<open>
  Claim C7. With a key configured: when the gather call throws, the analysis goes on to
  the extract phase with the text \<open>Search unavailable. Use internal knowledge base.\<close>
  as its context and the empty source list: the extract request carrying that text is
  issued right after the gather request, and an extract response that parses to an
  object makes the analysis resolve to that object with \<open>sources\<close> empty. And whenever
  the analysis resolves, its result is the parsed object with \<open>sources\<close> replaced by
  the citations of the gather response: one entry for every grounding chunk that has a
  \<open>web\<close> part, in order, with \<open>Source\<close> for a missing or empty title and \<open>#\<close> for a
  missing or empty address; the empty list when the gather call threw.
\<close>

theorem gather_failure_is_not_fatal:
  assumes "truthy_str apiKey"
  shows "(ai cs (Gather symbol_v price_v sector_v) = Throws \<longrightarrow>
            analyzeStockWithGemini apiKey ai JSON_parse symbol_v price_v sector_v cs
              = extract_phase ai JSON_parse symbol_v price_v
                  (js ''Search unavailable. Use internal knowledge base.'') []
                  (cs @ [Gather symbol_v price_v sector_v])
            \<and> snd (analyzeStockWithGemini apiKey ai JSON_parse symbol_v price_v sector_v cs)
              = cs @ [Gather symbol_v price_v sector_v,
                      Extract symbol_v price_v (js ''Search unavailable. Use internal knowledge base.'')]
            \<and> (\<forall>r t obj.
                  ai (cs @ [Gather symbol_v price_v sector_v])
                     (Extract symbol_v price_v (js ''Search unavailable. Use internal knowledge base.''))
                    = Returns r
                  \<and> resp_text r = Some t \<and> t \<noteq> [] \<and> JSON_parse t = Object obj
                  \<longrightarrow> fst (analyzeStockWithGemini apiKey ai JSON_parse symbol_v price_v sector_v cs)
                        = Inr (obj\<lparr>sources := []\<rparr>)))
         \<and> (\<forall>a. fst (analyzeStockWithGemini apiKey ai JSON_parse symbol_v price_v sector_v cs) = Inr a
              \<longrightarrow> sources a =
                    (case ai cs (Gather symbol_v price_v sector_v) of
                       Throws \<Rightarrow> []
                     | Returns r \<Rightarrow>
                         map (\<lambda>w. \<lparr> title = (case web_title w of None \<Rightarrow> js ''Source''
                                                | Some t \<Rightarrow> if t = [] then js ''Source'' else t),
                                    uri = (case web_uri w of None \<Rightarrow> js ''#''
                                              | Some u \<Rightarrow> if u = [] then js ''#'' else u) \<rparr>)
                             (List.map_filter web
                                (case groundingChunks r of None \<Rightarrow> [] | Some chs \<Rightarrow> chs)))
                  \<and> (\<exists>obj t. JSON_parse t = Object obj \<and> a = obj\<lparr>sources := sources a\<rparr>))"
proof -
  let ?g = "Gather symbol_v price_v sector_v"
  let ?p = "js ''Search unavailable. Use internal knowledge base.''"
  have 1: "analyzeStockWithGemini apiKey ai JSON_parse symbol_v price_v sector_v cs
        = extract_phase ai JSON_parse symbol_v price_v ?p [] (cs @ [?g])"
    if "ai cs ?g = Throws"
    using assms that
    by (simp add: analyzeStockWithGemini_def gather_phase_throws search_unavailable_text)
  have 2: "snd (analyzeStockWithGemini apiKey ai JSON_parse symbol_v price_v sector_v cs)
        = cs @ [?g, Extract symbol_v price_v ?p]"
    if "ai cs ?g = Throws"
    by (simp add: 1 [OF that] extract_phase_calls)
  have 3: "fst (analyzeStockWithGemini apiKey ai JSON_parse symbol_v price_v sector_v cs)
        = Inr (obj\<lparr>sources := []\<rparr>)"
    if "ai cs ?g = Throws" "ai (cs @ [?g]) (Extract symbol_v price_v ?p) = Returns r"
      "resp_text r = Some t" "t \<noteq> []" "JSON_parse t = Object obj" for r t obj
    using extract_phase_object [where ai = ai and JSON_parse = JSON_parse and srcs = "[]", OF that(2-5)]
    by (simp only: 1 [OF that(1)])
  have 4: "sources a = (case ai cs ?g of Throws \<Rightarrow> [] | Returns r \<Rightarrow> sources_of r)
           \<and> (\<exists>obj t. JSON_parse t = Object obj \<and> a = obj\<lparr>sources := sources a\<rparr>)"
    if "fst (analyzeStockWithGemini apiKey ai JSON_parse symbol_v price_v sector_v cs) = Inr a" for a
  proof -
    obtain ctx srcs cs' where g: "gather_phase ai symbol_v price_v sector_v cs = (ctx, srcs, cs')"
      by (cases "gather_phase ai symbol_v price_v sector_v cs") auto
    from that g assms have e: "fst (extract_phase ai JSON_parse symbol_v price_v ctx srcs cs') = Inr a"
      by (simp add: analyzeStockWithGemini_def)
    then have s: "sources a = srcs" by (rule extract_phase_sources)
    have "srcs = (case ai cs ?g of Throws \<Rightarrow> [] | Returns r \<Rightarrow> sources_of r)"
      using gather_phase_sources [of ai symbol_v price_v sector_v cs] g by simp
    moreover from extract_phase_result [OF e] obtain obj t where
      "JSON_parse t = Object obj" "a = obj\<lparr>sources := srcs\<rparr>"
      by blast
    ultimately show ?thesis using s by auto
  qed
  show ?thesis
    using 1 2 3 4 unfolding sources_of_explicit by blast
qed


theorem gather_failure_is_not_fatal_witness:
  "truthy_str (js ''key'')
   \<and> gather_down [] (Gather (js ''TCS'') (Fin 0) (js ''Unknown'')) = Throws
   \<and> sources cited_analysis = [\<lparr> title = js ''stale'', uri = js ''stale'' \<rparr>]
   \<and> analyzeStockWithGemini (js ''key'') gather_down (\<lambda>t. Object cited_analysis)
         (js ''TCS'') (Fin 0) (js ''Unknown'') []
       = (Inr (cited_analysis\<lparr>sources := []\<rparr>),
          [Gather (js ''TCS'') (Fin 0) (js ''Unknown''),
           Extract (js ''TCS'') (Fin 0) (js ''Search unavailable. Use internal knowledge base.'')])
   \<and> fst (analyzeStockWithGemini (js ''key'') gather_up (\<lambda>t. Object cited_analysis)
         (js ''TCS'') (Fin 0) (js ''Unknown'') [])
       = Inr (cited_analysis\<lparr>sources :=
               [\<lparr> title = js ''Reuters'', uri = js ''https://reuters.example/tcs'' \<rparr>,
                \<lparr> title = js ''Source'', uri = js ''#'' \<rparr>]\<rparr>)"
proof -
  let ?g = "Gather (js ''TCS'') (Fin 0) (js ''Unknown'')"
  let ?p = "js ''Search unavailable. Use internal knowledge base.''"
  have k: "truthy_str (js ''key'')" by (simp add: truthy_str_def js_def)
  have g: "gather_down [] ?g = Throws" by (simp add: gather_down_def)
  have c: "sources cited_analysis = [\<lparr> title = js ''stale'', uri = js ''stale'' \<rparr>]"
    by (simp add: cited_analysis_def)
  note d = gather_failure_is_not_fatal [OF k, of gather_down "[]" "js ''TCS''" "Fin 0" "js ''Unknown''"
        "\<lambda>t. Object cited_analysis"]
  have e: "gather_down ([] @ [?g]) (Extract (js ''TCS'') (Fin 0) ?p)
             = Returns \<lparr> resp_text = Some (js ''{}''), groundingChunks = None \<rparr>"
    by (simp add: gather_down_def)
  have t: "resp_text \<lparr> resp_text = Some (js ''{}''), groundingChunks = None \<rparr> = Some (js ''{}'')"
      "js ''{}'' \<noteq> []"
    by (simp_all add: js_def)
  have r1: "fst (analyzeStockWithGemini (js ''key'') gather_down (\<lambda>t. Object cited_analysis)
         (js ''TCS'') (Fin 0) (js ''Unknown'') []) = Inr (cited_analysis\<lparr>sources := []\<rparr>)"
    using d g e t by blast
  have r2: "snd (analyzeStockWithGemini (js ''key'') gather_down (\<lambda>t. Object cited_analysis)
         (js ''TCS'') (Fin 0) (js ''Unknown'') []) = [?g, Extract (js ''TCS'') (Fin 0) ?p]"
  proof -
    from d g have "snd (analyzeStockWithGemini (js ''key'') gather_down (\<lambda>t. Object cited_analysis)
         (js ''TCS'') (Fin 0) (js ''Unknown'') []) = [] @ [?g, Extract (js ''TCS'') (Fin 0) ?p]"
      by blast
    then show ?thesis by (simp only: append_Nil)
  qed
  have r: "analyzeStockWithGemini (js ''key'') gather_down (\<lambda>t. Object cited_analysis)
         (js ''TCS'') (Fin 0) (js ''Unknown'') []
       = (Inr (cited_analysis\<lparr>sources := []\<rparr>), [?g, Extract (js ''TCS'') (Fin 0) ?p])"
    using r1 r2 by (simp add: prod_eq_iff)
  note u = gather_failure_is_not_fatal [OF k, of gather_up "[]" "js ''TCS''" "Fin 0" "js ''Unknown''"
        "\<lambda>t. Object cited_analysis"]
  obtain a where a: "fst (analyzeStockWithGemini (js ''key'') gather_up (\<lambda>t. Object cited_analysis)
         (js ''TCS'') (Fin 0) (js ''Unknown'') []) = Inr a"
    using k
    by (simp add: analyzeStockWithGemini_def gather_phase_def extract_phase_def generateContent_def
        gather_up_def truthy_str_def js_def)
  have ne: "js ''Reuters'' \<noteq> []" "js ''https://reuters.example/tcs'' \<noteq> []"
    by (simp_all add: js_def)
  note v = u [THEN conjunct2, rule_format, OF a]
  have s1: "sources a = [\<lparr> title = js ''Reuters'', uri = js ''https://reuters.example/tcs'' \<rparr>,
                     \<lparr> title = js ''Source'', uri = js ''#'' \<rparr>]"
    using v [THEN conjunct1] ne by (simp add: gather_up_def List.map_filter_def)
  have s2: "a = cited_analysis\<lparr>sources := sources a\<rparr>"
    using v [THEN conjunct2] by blast
  have "a = cited_analysis\<lparr>sources :=
               [\<lparr> title = js ''Reuters'', uri = js ''https://reuters.example/tcs'' \<rparr>,
                \<lparr> title = js ''Source'', uri = js ''#'' \<rparr>]\<rparr>"
    using s2 by (simp only: s1)
  then show ?thesis using k g c r a by simp
qed

section \<open>The analyze operation on the dashboard\<close>








lemma analyzeStock_resolved:
  assumes "analyze symbol_v price_v sector_v (calls w) = (Inr a, cs')"
    and "selectedStock (ui w) = Some s"
  shows "\<exists>w'. analyzeStock analyze symbol_v price_v sector_v w = Inr w'
     \<and> ui w' = (ui w)\<lparr> loading := False, view := Detail, analysis := Some a,
           selectedStock := Some (s\<lparr>
              price := (if truthy_num (currentPrice a) then currentPrice a
                        else if truthy_num price_v then price_v else price s),
              name := (if truthy_str (companyName a) then companyName a else name s),
              sector := (if sector s = js ''Unknown'' then js ''Analysed'' else sector s) \<rparr>) \<rparr>"
  using assms
  by (simp add: analyzeStock_def analyzeStock_begin_def analyzeStock_settle_def success_update_def)

text \<open>
  Started from a click on a candidate, and with no other update committed before the
  result, the analysis commits the extracted price if nonzero and else the price of the
  candidate, which is the known price.
\<close>

lemma handleStockClick_price:
  assumes "analyze (symbol st) (price st) (sector st) (calls w) = (Inr a, cs')"
  shows "\<exists>w' s'. handleStockClick analyze st w = Inr w' \<and> selectedStock (ui w') = Some s'
     \<and> price s' = (if truthy_num (currentPrice a) then currentPrice a else price st)"
proof -
  have c: "analyze (symbol st) (price st) (sector st) (calls (select_stock st w)) = (Inr a, cs')"
    using assms by (simp add: select_stock_def)
  have s: "selectedStock (ui (select_stock st w)) = Some st"
    by (simp add: select_stock_def)
  from analyzeStock_resolved [of analyze "symbol st" "price st" "sector st" "select_stock st w" a cs' st,
      OF c s]
  show ?thesis by (auto simp: handleStockClick_def)
qed

text \<open>
  Claim C5, as the code has it. When the result of a successful analysis is committed
  to a state with a selected candidate, the committed price is the extracted price if
  that is a number other than zero, else the known price if that is a number other than
  zero, else the price the selected candidate has in that state. Where the selected
  candidate carries the known price, as it does when no other update was committed
  since the analysis was started from it, this is the extracted price if nonzero and
  else the known price. The name becomes the extracted company name if that is not
  empty, the sector becomes \<open>Analysed\<close> if it was \<open>Unknown\<close> and is kept otherwise,
  and the other fields of the candidate are kept.
\<close>

theorem successful_analysis_reconciles_selected:
  assumes "selectedStock (ui w) = Some s"
  shows "\<exists>w' s'. analyzeStock_settle (Inr a) price_v w = Inr w'
     \<and> selectedStock (ui w') = Some s'
     \<and> analysis (ui w') = Some a
     \<and> loading (ui w') = False
     \<and> view (ui w') = view (ui w)
     \<and> commits w' = commits w @ [ui w']
     \<and> price s' = (if currentPrice a \<noteq> NaN \<and> currentPrice a \<noteq> Fin 0 then currentPrice a
                   else if price_v \<noteq> NaN \<and> price_v \<noteq> Fin 0 then price_v
                   else price s)
     \<and> (price s = price_v \<longrightarrow>
          price s' = (if currentPrice a \<noteq> NaN \<and> currentPrice a \<noteq> Fin 0 then currentPrice a
                      else price_v))
     \<and> name s' = (if companyName a \<noteq> [] then companyName a else name s)
     \<and> sector s' = (if sector s = js ''Unknown'' then js ''Analysed'' else sector s)
     \<and> symbol s' = symbol s \<and> changePercent s' = changePercent s \<and> marketCap s' = marketCap s
     \<and> reason s' = reason s \<and> score s' = score s"
  using assms
  by (simp add: analyzeStock_settle_def success_update_def setState_def truthy_num_def
      truthy_str_def)

lemma stale_price_state_eval:
  "selectedStock (ui stale_price_state)
     = Some ((tempStock (js ''TCS''))\<lparr> price := Fin 3500, name := js ''Tata Consultancy Services'',
                                        sector := js ''Analysed'' \<rparr>)"
  by (simp add: stale_price_state_def search_begin_def analyzeStock_begin_def
      analyzeStock_settle_def success_update_def handleBack_def select_stock_def
      initial_app_def initial_state_def tempStock_def demo_analysis_def truthy_num_def
      truthy_str_def js_def)

theorem successful_analysis_reconciles_selected_witness:
  "(\<exists>w' s'. analyzeStock_settle (Inr (demo_analysis\<lparr>currentPrice := Fin 0\<rparr>)) (Fin 0)
               stale_price_state = Inr w'
      \<and> selectedStock (ui w') = Some s'
      \<and> price s' = Fin 3500
      \<and> name s' = js ''Tata Consultancy Services''
      \<and> sector s' = js ''Analysed'')
   \<and> (\<exists>w' s'. analyzeStock_settle (Inr (demo_analysis\<lparr>currentPrice := Fin 0\<rparr>)) (Fin 0)
               (search_begin (js ''TCS'') initial_app) = Inr w'
      \<and> selectedStock (ui w') = Some s'
      \<and> price s' = Fin 0
      \<and> name s' = js ''Tata Consultancy Services''
      \<and> sector s' = js ''Analysed'')"
proof -
  have n: "companyName demo_analysis \<noteq> []" by (simp add: demo_analysis_def js_def)
  have u: "js ''Analysed'' \<noteq> js ''Unknown''" by (simp add: js_def)
  have b: "selectedStock (ui (search_begin (js ''TCS'') initial_app)) = Some (tempStock (js ''TCS''))"
    by (simp add: search_begin_def analyzeStock_begin_def select_stock_def)
  have 1: "\<exists>w' s'. analyzeStock_settle (Inr (demo_analysis\<lparr>currentPrice := Fin 0\<rparr>)) (Fin 0)
               stale_price_state = Inr w'
      \<and> selectedStock (ui w') = Some s'
      \<and> price s' = Fin 3500
      \<and> name s' = js ''Tata Consultancy Services''
      \<and> sector s' = js ''Analysed''"
    using successful_analysis_reconciles_selected [OF stale_price_state_eval,
        of "demo_analysis\<lparr>currentPrice := Fin 0\<rparr>" "Fin 0"] n u
    by (auto simp: demo_analysis_def)
  have 2: "\<exists>w' s'. analyzeStock_settle (Inr (demo_analysis\<lparr>currentPrice := Fin 0\<rparr>)) (Fin 0)
               (search_begin (js ''TCS'') initial_app) = Inr w'
      \<and> selectedStock (ui w') = Some s'
      \<and> price s' = Fin 0
      \<and> name s' = js ''Tata Consultancy Services''
      \<and> sector s' = js ''Analysed''"
    using successful_analysis_reconciles_selected [OF b,
        of "demo_analysis\<lparr>currentPrice := Fin 0\<rparr>" "Fin 0"] n
    by (auto simp: demo_analysis_def tempStock_def)
  show ?thesis using 1 2 by blast
qed

text \<open>
  The claim as the specification words it knows no fallback beyond the known price. In
  the run \<open>stale_price_run\<close> the second analysis is started with the known price zero and
  extracts the price zero, and the committed price is 3500, the price the selected
  candidate had by then.
\<close>

theorem stale_price_survives_zero_prices:
  "\<not> isl stale_price_run
   \<and> currentPrice (demo_analysis\<lparr>currentPrice := Fin 0\<rparr>) = Fin 0
   \<and> map_option price (selectedStock (ui (projr stale_price_run))) = Some (Fin 3500)"
  by (simp add: stale_price_run_def settle_then_def search_begin_def analyzeStock_begin_def
      analyzeStock_settle_def success_update_def failure_update_def handleBack_def select_stock_def
      alert_def initial_app_def initial_state_def tempStock_def demo_analysis_def truthy_num_def
      truthy_str_def js_def)

section \<open>Progress of the scan\<close>

lemma alerts_scan_loop: "alerts (snd (scan_loop scan n ss i acc w)) = alerts w"
proof (induction ss arbitrary: i acc w)
  case Nil
  show ?case by simp
next
  case (Cons s ss)
  show ?case
    by (simp add: Let_def Cons.IH split: prod.splits sum.splits)
qed

lemma five_sectors: "length sectors = 5"
  by (simp add: sectors_def)

lemma Math_round_near:
  assumes "\<bar>e\<bar> < 1 / 2"
  shows "Math_round (of_int m + e) = m"
proof -
  have "of_int m \<le> of_int m + e + 1 / 2" "of_int m + e + 1 / 2 < of_int m + 1"
    using assms by linarith+
  then show ?thesis unfolding Math_round_def by linarith
qed

lemma Math_round_of_int: "Math_round (of_int m) = m"
  using Math_round_near [of 0 m] by simp

lemma progress_value: "Math_round ((of_nat k / of_nat 5) * 100) = 20 * int k"
proof -
  have "(of_nat k / of_nat 5) * 100 = (of_int (20 * int k) :: rat)" by simp
  then show ?thesis by (simp only: Math_round_of_int)
qed

lemma progress_values:
  "map (\<lambda>k. Math_round ((of_nat k / of_nat 5) * 100)) [0 ..< 0 + 5] = [0, 20, 40, 60, 80]"
  by (simp only: progress_value) (simp add: upt_conv_Cons)


lemma upt_step: "[i ..< i + length (s # ss)] = i # [Suc i ..< Suc i + length ss]"
  using upt_conv_Cons [of i "i + Suc (length ss)"] by simp

lemma scan_loop_progress:
  "scan_loop scan n ss i acc w = (Inr picks, w') \<Longrightarrow>
   \<exists>L. commits w' = commits w @ L
      \<and> map progress L = map (\<lambda>k. Math_round ((of_nat k / of_nat n) * 100)) [i ..< i + length ss]"
proof (induction ss arbitrary: i acc w)
  case Nil
  then show ?case by simp
next
  case (Cons s ss)
  let ?f = "\<lambda>prev. prev\<lparr> progress := Math_round ((of_nat i / of_nat n) * 100),
                          scanStatus := js ''Analyzing '' @ s @ js ''...'' \<rparr>"
  let ?w1 = "setState ?f w"
  obtain r cs' where sc: "scan s (calls ?w1) = (r, cs')"
    by (cases "scan s (calls ?w1)") auto
  show ?case
  proof (cases r)
    case (Inl e)
    with sc Cons.prems show ?thesis by (simp add: Let_def)
  next
    case (Inr p)
    with sc Cons.prems
    have "scan_loop scan n ss (Suc i) (acc @ p) (?w1\<lparr>calls := cs'\<rparr>) = (Inr picks, w')"
      by (simp add: Let_def)
    from Cons.IH [OF this] obtain L where
      L: "commits w' = commits (?w1\<lparr>calls := cs'\<rparr>) @ L"
         "map progress L = map (\<lambda>k. Math_round ((of_nat k / of_nat n) * 100)) [Suc i ..< Suc i + length ss]"
      by blast
    have "commits w' = commits w @ (?f (ui w) # L)" using L(1) by simp
    moreover have "map progress (?f (ui w) # L)
        = map (\<lambda>k. Math_round ((of_nat k / of_nat n) * 100)) [i ..< i + length (s # ss)]"
      using L(2) by (simp only: upt_step list.map) simp
    ultimately show ?thesis by blast
  qed
qed


lemma completed_scan_loop:
  assumes "alerts (handleScanForValue scan w) = alerts w"
  shows "\<exists>picks w1. scan_loop scan (length sectors) sectors 0 []
            (setState (\<lambda>prev. prev\<lparr> loading := True, scanMode := True, progress := 0,
                                       stocks := [],
                                       scanStatus := js ''Initializing Nifty 200 Scan...'' \<rparr>) w)
          = (Inr picks, w1)"
proof -
  let ?w0 = "setState (\<lambda>prev. prev\<lparr> loading := True, scanMode := True, progress := 0,
                                       stocks := [],
                                       scanStatus := js ''Initializing Nifty 200 Scan...'' \<rparr>) w"
  obtain r w1 where l: "scan_loop scan (length sectors) sectors 0 [] ?w0 = (r, w1)"
    by (cases "scan_loop scan (length sectors) sectors 0 [] ?w0") auto
  have a: "alerts w1 = alerts w"
    using alerts_scan_loop [of scan "length sectors" sectors 0 "[]" ?w0] l by simp
  show ?thesis
  proof (cases r)
    case (Inl e)
    with l a assms show ?thesis
      by (simp add: handleScanForValue_def Let_def alert_def)
  next
    case (Inr p)
    with l show ?thesis by simp
  qed
qed

text \<open>
  Claim C9. In a scan that completes (no failure alert is raised) the updates of the run
  set \<open>progress\<close> to 0 (the reset), then to 0, 20, 40, 60, 80 (the five passes of
  the loop, \<open>Math.round(i / 5 * 100)\<close> for \<open>i\<close> from 0 to 4), then to 100 (the final
  update); the sequence never decreases.
\<close>

theorem scan_progress_sequence:
  assumes "alerts (handleScanForValue scan w) = alerts w"
  shows "map progress (drop (length (commits w)) (commits (handleScanForValue scan w)))
           = [0, 0, 20, 40, 60, 80, 100]
     \<and> map progress (take 5 (drop (Suc (length (commits w))) (commits (handleScanForValue scan w))))
           = map (\<lambda>i. Math_round ((of_nat i / of_nat (length sectors)) * 100)) [0 ..< 5]
     \<and> map (\<lambda>i. Math_round ((of_nat i / of_nat (length sectors)) * 100)) [0 ..< 5]
           = [0, 20, 40, 60, 80]
     \<and> progress (last (commits (handleScanForValue scan w))) = 100
     \<and> progress (ui (handleScanForValue scan w)) = 100
     \<and> sorted (map progress (drop (length (commits w)) (commits (handleScanForValue scan w))))"
proof -
  let ?f0 = "\<lambda>prev. prev\<lparr> loading := True, scanMode := True, progress := 0, stocks := [],
                           scanStatus := js ''Initializing Nifty 200 Scan...'' \<rparr>"
  let ?w0 = "setState ?f0 w"
  obtain picks w1 where l: "scan_loop scan (length sectors) sectors 0 [] ?w0 = (Inr picks, w1)"
    using completed_scan_loop [OF assms] by blast
  from scan_loop_progress [OF l] obtain L where
    L: "commits w1 = commits ?w0 @ L"
       "map progress L = map (\<lambda>k. Math_round ((of_nat k / of_nat (length sectors)) * 100))
                            [0 ..< 0 + length sectors]"
    by blast
  have pv: "map (\<lambda>k. Math_round ((of_nat k / of_nat (length sectors)) * 100)) [0 ..< 0 + length sectors]
              = [0, 20, 40, 60, 80]"
    using progress_values by (simp only: five_sectors)
  have pL: "map progress L = [0, 20, 40, 60, 80]"
    using L(2) pv by simp
  have "length (map progress L) = length [0, 20, 40, 60, 80 :: int]"
    by (simp only: pL)
  then have len: "length L = 5" by simp
  let ?g = "\<lambda>prev. prev\<lparr> stocks := take 20 (js_sort score_cmp picks), loading := False,
                          progress := 100, scanStatus := js ''Scan Complete'' \<rparr>"
  have h: "handleScanForValue scan w = setState ?g w1"
    using l by (simp add: handleScanForValue_def Let_def)
  have c: "commits (handleScanForValue scan w) = commits w @ (?f0 (ui w) # L @ [?g (ui w1)])"
    using L(1) by (simp add: h)
  have 1: "map progress (drop (length (commits w)) (commits (handleScanForValue scan w)))
           = [0, 0, 20, 40, 60, 80, 100]"
    by (simp add: c pL)
  have 2: "map progress (take 5 (drop (Suc (length (commits w))) (commits (handleScanForValue scan w))))
           = [0, 20, 40, 60, 80]"
    by (simp add: c len pL)
  have 3: "map (\<lambda>i. Math_round ((of_nat i / of_nat (length sectors)) * 100)) [0 ..< 5] = [0, 20, 40, 60, 80]"
    using progress_values by (simp only: five_sectors add_0)
  have 4: "progress (last (commits (handleScanForValue scan w))) = 100"
    by (simp add: c)
  have 5: "progress (ui (handleScanForValue scan w)) = 100"
    by (simp add: h)
  show ?thesis by (simp only: 1 2 3 4 5) simp
qed

theorem scan_progress_sequence_witness:
  "alerts (handleScanForValue demo_scan initial_app) = alerts initial_app
   \<and> map progress (commits (handleScanForValue demo_scan initial_app)) = [0, 0, 20, 40, 60, 80, 100]"
proof -
  have "\<forall>s cs. \<exists>picks cs'. demo_scan s cs = (Inr picks, cs')"
    by (simp add: demo_scan_def)
  from handleScanForValue_completes [OF this, of initial_app]
  have a: "alerts (handleScanForValue demo_scan initial_app) = alerts initial_app"
    by (rule conjunct1)
  have c: "commits initial_app = []" by (simp add: initial_app_def)
  from scan_progress_sequence [OF a]
  have "map progress (drop (length (commits initial_app)) (commits (handleScanForValue demo_scan initial_app)))
          = [0, 0, 20, 40, 60, 80, 100]"
    by (rule conjunct1)
  then show ?thesis using a by (simp add: c)
qed


section \<open>The committed picks\<close>

























section \<open>The CSV parser\<close>

lemmas parse_eval = js_def str_includes_def parse_line_def make_stock_def
  elem_at_def clean_def truthy_part_def truthy_str_def trim_def is_space_def is_quote_def
  parseFloat_def parseInt_def parseInt_part_def trimStart_def is_prefix_def is_digit_def isNaN_def
  digit_val_def is_radix_digit_def Let_def exponent_of_def pow10_def

lemma split_not_Nil: "split sep s \<noteq> []"
  by (induction s) (auto split: list.splits)

lemma split_no_sep: "sep \<notin> set s \<Longrightarrow> split sep s = [s]"
  by (induction s) auto

lemma split_append: "split sep (a @ sep # b) = split sep a @ split sep b"
  by (induction a) (auto simp: split_not_Nil split: list.splits)

lemma split_single_has_no_sep: "length (split sep s) \<le> 1 \<longleftrightarrow> sep \<notin> set s"
proof (induction s)
  case Nil
  show ?case by simp
next
  case (Cons c s)
  show ?case
  proof (cases "c = sep")
    case True
    then show ?thesis using split_not_Nil [of sep s] by (cases "split sep s") auto
  next
    case False
    then show ?thesis using Cons split_not_Nil [of sep s] by (cases "split sep s") auto
  qed
qed

lemma parse_line_acc: "parse_line line acc = acc @ parse_line line []"
  by (simp add: parse_line_def Let_def)

lemma parse_loop_concat: "parse_loop ls acc = acc @ concat (map (\<lambda>l. parse_line l []) ls)"
proof (induction ls arbitrary: acc)
  case Nil
  show ?case by simp
next
  case (Cons l ls)
  show ?case using parse_line_acc [of l acc] by (simp add: Cons.IH)
qed

lemma concat_map_filter:
  "concat (map f (filter P xs)) = concat (map (\<lambda>x. if P x then f x else []) xs)"
  by (induction xs) auto

lemma parseStockCSV_by_lines:
  "parseStockCSV txt = concat (map line_candidates (split newline txt))"
proof -
  have "line_candidates = (\<lambda>l. if str_includes l comma then parse_line l [] else [])"
    by (rule ext) (simp add: line_candidates_def)
  then show ?thesis
    by (simp add: parseStockCSV_def parse_loop_concat concat_map_filter)
qed

lemma parseStockCSV_append:
  "parseStockCSV (a @ newline # b) = parseStockCSV a @ parseStockCSV b"
  by (simp add: parseStockCSV_by_lines split_append)

lemma line_candidates_rejected:
  "length (split comma line) < 6 \<or> isNaN (parseFloat (clean (elem_at (split comma line) 3)))
   \<Longrightarrow> line_candidates line = []"
  by (auto simp: line_candidates_def parse_line_def Let_def)

lemma line_candidates_at_most_one: "length (line_candidates line) \<le> 1"
  by (simp add: line_candidates_def parse_line_def Let_def)

lemma parseStockCSV_single_line:
  assumes "newline \<notin> set line" and "6 \<le> length (split comma line)"
    and "parseFloat (clean (elem_at (split comma line) 3)) \<noteq> NaN"
  shows "parseStockCSV line =
           [make_stock (split comma line) (parseFloat (clean (elem_at (split comma line) 3)))
              (parseFloat (clean (elem_at (split comma line) 4)))]"
proof -
  have "\<not> length (split comma line) \<le> 1" using assms(2) by simp
  then have "comma \<in> set line" using split_single_has_no_sep [of comma line] by blast
  then show ?thesis
    using assms
    by (simp add: parseStockCSV_by_lines split_no_sep line_candidates_def str_includes_def
        parse_line_def Let_def isNaN_def)
qed

lemma clean_Some: "clean (Some t) = trim (filter (\<lambda>x. \<not> is_quote x) t)"
  by (simp add: clean_def truthy_str_def trim_def)

lemma elem_at_Some: "i < length xs \<Longrightarrow> elem_at xs i = Some (xs ! i)"
  by (simp add: elem_at_def)

lemma elem_at_None: "length xs \<le> i \<Longrightarrow> elem_at xs i = None"
  by (simp add: elem_at_def)

lemma trim_sandwich:
  assumes "\<forall>x \<in> set p. is_space x" and "\<forall>x \<in> set q. is_space x"
    and "m = [] \<or> (\<not> is_space (hd m) \<and> \<not> is_space (last m))"
  shows "trim (p @ m @ q) = m"
proof (cases "m = []")
  case True
  then have "\<forall>x \<in> set (p @ m @ q). is_space x" using assms(1,2) by auto
  then have d: "dropWhile is_space (p @ m @ q) = []" by (simp only: dropWhile_eq_Nil_conv)
  show ?thesis unfolding trim_def d using True by simp
next
  case False
  then have h: "\<not> is_space (hd m)" and l: "\<not> is_space (last m)" using assms(3) by auto
  have "dropWhile is_space (p @ m @ q) = dropWhile is_space (m @ q)"
    by (rule dropWhile_append2) (use assms(1) in auto)
  also have "\<dots> = m @ q" using False h by (cases m) auto
  finally have 1: "dropWhile is_space (p @ m @ q) = m @ q" .
  have "dropWhile is_space (rev (m @ q)) = dropWhile is_space (rev q @ rev m)" by simp
  also have "\<dots> = dropWhile is_space (rev m)"
    by (rule dropWhile_append2) (use assms(2) in auto)
  also have "\<dots> = rev m" using False l by (cases "rev m") (auto simp: last_rev [symmetric] hd_rev)
  finally have 2: "dropWhile is_space (rev (m @ q)) = rev m" .
  show ?thesis unfolding trim_def 1 2 by simp
qed


lemma strip_ends_decomp:
  "\<exists>p q. s = p @ strip_ends s @ q
      \<and> (\<forall>x \<in> set p. is_quote_or_space x) \<and> (\<forall>x \<in> set q. is_quote_or_space x)
      \<and> (strip_ends s = [] \<or>
           (\<not> is_quote_or_space (hd (strip_ends s)) \<and> \<not> is_quote_or_space (last (strip_ends s))))"
proof -
  let ?Q = is_quote_or_space
  let ?p = "takeWhile ?Q s"
  let ?r = "dropWhile ?Q s"
  let ?m = "rev (dropWhile ?Q (rev ?r))"
  let ?q = "rev (takeWhile ?Q (rev ?r))"
  have m: "strip_ends s = ?m" by (simp add: strip_ends_def)
  have "rev ?r = takeWhile ?Q (rev ?r) @ dropWhile ?Q (rev ?r)" by simp
  then have "rev (rev ?r) = rev (takeWhile ?Q (rev ?r) @ dropWhile ?Q (rev ?r))" by (rule arg_cong)
  then have r: "?r = ?m @ ?q" by (simp only: rev_rev_ident rev_append)
  have s: "s = ?p @ ?m @ ?q" using r takeWhile_dropWhile_id [of ?Q s] by metis
  have p: "\<forall>x \<in> set ?p. ?Q x" by (auto dest: set_takeWhileD)
  have q: "\<forall>x \<in> set ?q. ?Q x" by (auto dest: set_takeWhileD)
  have e: "?m = [] \<or> (\<not> ?Q (hd ?m) \<and> \<not> ?Q (last ?m))"
  proof (cases "?m = []")
    case True
    then show ?thesis by simp
  next
    case False
    then have d: "dropWhile ?Q (rev ?r) \<noteq> []" by simp
    have l: "\<not> ?Q (last ?m)" using d by (simp add: last_rev hd_dropWhile)
    have "?r \<noteq> []"
    proof
      assume a: "?r = []"
      have "?m = []" unfolding a by simp
      with False show False by contradiction
    qed
    then have "\<not> ?Q (hd ?r)" by (rule hd_dropWhile)
    moreover have "hd ?r = hd ?m" using r False by (metis hd_append2)
    ultimately show ?thesis using l by simp
  qed
  show ?thesis using s p q e unfolding m by blast
qed

lemma clean_is_strip_ends:
  assumes "\<forall>x \<in> set (strip_ends s). \<not> is_quote x"
  shows "trim (filter (\<lambda>x. \<not> is_quote x) s) = strip_ends s"
proof -
  obtain p q where d: "s = p @ strip_ends s @ q"
      "\<forall>x \<in> set p. is_quote_or_space x" "\<forall>x \<in> set q. is_quote_or_space x"
      "strip_ends s = [] \<or>
         (\<not> is_quote_or_space (hd (strip_ends s)) \<and> \<not> is_quote_or_space (last (strip_ends s)))"
    using strip_ends_decomp [of s] by blast
  let ?nq = "\<lambda>x. \<not> is_quote x"
  have "filter ?nq s = filter ?nq (p @ strip_ends s @ q)" using d(1) by simp
  also have "\<dots> = filter ?nq p @ filter ?nq (strip_ends s) @ filter ?nq q" by simp
  also have "filter ?nq (strip_ends s) = strip_ends s" using assms by simp
  finally have f: "filter ?nq s = filter ?nq p @ strip_ends s @ filter ?nq q" .
  have 1: "\<forall>x \<in> set (filter ?nq p). is_space x" using d(2) by (auto simp: is_quote_or_space_def)
  have 2: "\<forall>x \<in> set (filter ?nq q). is_space x" using d(3) by (auto simp: is_quote_or_space_def)
  have 3: "strip_ends s = [] \<or> (\<not> is_space (hd (strip_ends s)) \<and> \<not> is_space (last (strip_ends s)))"
    using d(4) by (auto simp: is_quote_or_space_def)
  show ?thesis unfolding f by (rule trim_sandwich [OF 1 2 3])
qed


text \<open>
  Claim C2, as the code has it. A line without a line break that splits at the commas
  into at least six fields, and whose cleaned fourth field parses as a number, yields
  exactly one candidate. Its symbol, name, sector and market cap are the fields 0, 1, 2
  and 5 with every quote character removed, wherever it stands in the field, and the
  white space at both ends trimmed afterwards; its price is the number parsed from the
  fourth field so cleaned, and its change is the number parsed from the fifth, or 0 when
  that is \<open>NaN\<close>. For a field whose stripped text holds no quote character this is
  the stripping of quote characters and white space at the two ends that the
  specification describes.
\<close>

theorem well_formed_line_yields_one_candidate:
  assumes "newline \<notin> set line"
    and "6 \<le> length (split comma line)"
    and "parseFloat (clean (elem_at (split comma line) 3)) \<noteq> NaN"
  shows "\<exists>c. parseStockCSV line = [c]
     \<and> symbol c = trim (filter (\<lambda>x. \<not> is_quote x) (split comma line ! 0))
     \<and> name c = trim (filter (\<lambda>x. \<not> is_quote x) (split comma line ! 1))
     \<and> sector c = trim (filter (\<lambda>x. \<not> is_quote x) (split comma line ! 2))
     \<and> price c = parseFloat (trim (filter (\<lambda>x. \<not> is_quote x) (split comma line ! 3)))
     \<and> changePercent c =
         (if parseFloat (trim (filter (\<lambda>x. \<not> is_quote x) (split comma line ! 4))) = NaN then Fin 0
          else parseFloat (trim (filter (\<lambda>x. \<not> is_quote x) (split comma line ! 4))))
     \<and> marketCap c = trim (filter (\<lambda>x. \<not> is_quote x) (split comma line ! 5))
     \<and> (\<forall>i. (\<forall>x \<in> set (strip_ends (split comma line ! i)). \<not> is_quote x) \<longrightarrow>
           trim (filter (\<lambda>x. \<not> is_quote x) (split comma line ! i)) = strip_ends (split comma line ! i))"
proof -
  let ?parts = "split comma line"
  have e: "elem_at ?parts i = Some (?parts ! i)" if "i < 6" for i
    using assms(2) that by (simp add: elem_at_def)
  have p: "parseStockCSV line =
           [make_stock ?parts (parseFloat (clean (elem_at ?parts 3)))
              (parseFloat (clean (elem_at ?parts 4)))]"
    by (rule parseStockCSV_single_line [OF assms])
  show ?thesis
    unfolding p by (simp add: make_stock_def e clean_Some isNaN_def clean_is_strip_ends)
qed

lemma demo_line_fields:
  "split comma demo_line
     = [js ''HDFCBANK'', js '' '' @ [34] @ js ''HDFC Bank'' @ [34] @ js '' '', js ''Financials'',
        js ''1450.00'', js ''n/a'', js ''11.5T'']"
  by (simp add: demo_line_def js_def comma_def)

theorem well_formed_line_yields_one_candidate_witness:
  "newline \<notin> set demo_line
   \<and> 6 \<le> length (split comma demo_line)
   \<and> parseFloat (clean (elem_at (split comma demo_line) 3)) \<noteq> NaN
   \<and> (\<exists>c. parseStockCSV demo_line = [c]
        \<and> symbol c = js ''HDFCBANK'' \<and> name c = js ''HDFC Bank'' \<and> sector c = js ''Financials''
        \<and> price c = Fin 1450 \<and> changePercent c = Fin 0 \<and> marketCap c = js ''11.5T'')
   \<and> strip_ends (split comma demo_line ! 1) = js ''HDFC Bank''"
proof -
  have a: "newline \<notin> set demo_line" by (simp add: demo_line_def js_def newline_def)
  have b: "6 \<le> length (split comma demo_line)" by (simp add: demo_line_fields)
  have c: "parseFloat (clean (elem_at (split comma demo_line) 3)) \<noteq> NaN"
    by (simp add: demo_line_fields parse_eval)
  have f: "trim (filter (\<lambda>x. \<not> is_quote x) (split comma demo_line ! 0)) = js ''HDFCBANK''"
    "trim (filter (\<lambda>x. \<not> is_quote x) (split comma demo_line ! 1)) = js ''HDFC Bank''"
    "trim (filter (\<lambda>x. \<not> is_quote x) (split comma demo_line ! 2)) = js ''Financials''"
    "parseFloat (trim (filter (\<lambda>x. \<not> is_quote x) (split comma demo_line ! 3))) = Fin 1450"
    "parseFloat (trim (filter (\<lambda>x. \<not> is_quote x) (split comma demo_line ! 4))) = NaN"
    "trim (filter (\<lambda>x. \<not> is_quote x) (split comma demo_line ! 5)) = js ''11.5T''"
    by (simp_all add: demo_line_fields parse_eval)
  have q: "strip_ends (split comma demo_line ! 1) = js ''HDFC Bank''"
    by (simp add: demo_line_fields strip_ends_def is_quote_or_space_def is_quote_def
        is_space_def js_def)
  from well_formed_line_yields_one_candidate [OF a b c] obtain cand where
    "parseStockCSV demo_line = [cand]"
    "symbol cand = trim (filter (\<lambda>x. \<not> is_quote x) (split comma demo_line ! 0))"
    "name cand = trim (filter (\<lambda>x. \<not> is_quote x) (split comma demo_line ! 1))"
    "sector cand = trim (filter (\<lambda>x. \<not> is_quote x) (split comma demo_line ! 2))"
    "price cand = parseFloat (trim (filter (\<lambda>x. \<not> is_quote x) (split comma demo_line ! 3)))"
    "changePercent cand =
         (if parseFloat (trim (filter (\<lambda>x. \<not> is_quote x) (split comma demo_line ! 4))) = NaN then Fin 0
          else parseFloat (trim (filter (\<lambda>x. \<not> is_quote x) (split comma demo_line ! 4))))"
    "marketCap cand = trim (filter (\<lambda>x. \<not> is_quote x) (split comma demo_line ! 5))"
    by blast
  then have "parseStockCSV demo_line = [cand]
        \<and> symbol cand = js ''HDFCBANK'' \<and> name cand = js ''HDFC Bank'' \<and> sector cand = js ''Financials''
        \<and> price cand = Fin 1450 \<and> changePercent cand = Fin 0 \<and> marketCap cand = js ''11.5T''"
    by (simp only: f) simp
  then show ?thesis using a b c q by blast
qed

lemma quoted_name_line_fields:
  "split comma quoted_name_line
     = [js ''A'', js ''O'' @ [39] @ js ''Neil'', js ''Z'', js ''10.5'', js ''1.2'', js ''1T'']"
  by (simp add: quoted_name_line_def js_def comma_def)

text \<open>
  The claim as the specification words it removes nothing but quotes and white space at
  the ends of a field. The line \<open>A,O'Neil,Z,10.5,1.2,1T\<close> yields one candidate whose
  name is \<open>ONeil\<close>, while stripping the ends leaves \<open>O'Neil\<close>.
\<close>

theorem interior_quote_is_removed:
  "length (parseStockCSV quoted_name_line) = 1
   \<and> name (hd (parseStockCSV quoted_name_line)) = js ''ONeil''
   \<and> strip_ends (split comma quoted_name_line ! 1) = js ''O'' @ [39] @ js ''Neil''
   \<and> name (hd (parseStockCSV quoted_name_line)) \<noteq> strip_ends (split comma quoted_name_line ! 1)"
proof -
  have n: "newline \<notin> set quoted_name_line" by (simp add: quoted_name_line_def js_def newline_def)
  have p: "parseStockCSV quoted_name_line = line_candidates quoted_name_line"
    by (simp add: parseStockCSV_by_lines split_no_sep [OF n])
  have c: "name (hd (line_candidates quoted_name_line)) = js ''ONeil''"
      "length (line_candidates quoted_name_line) = 1"
    by (simp_all add: line_candidates_def quoted_name_line_fields parse_eval)
       (simp_all add: quoted_name_line_def js_def comma_def)
  have s: "strip_ends (split comma quoted_name_line ! 1) = js ''O'' @ [39] @ js ''Neil''"
    by (simp add: quoted_name_line_fields strip_ends_def is_quote_or_space_def is_quote_def
        is_space_def js_def)
  show ?thesis unfolding p c s by (simp add: js_def)
qed


text \<open>
  Claim C1, as the code has it. For a line that yields a candidate: with exactly six
  fields the score is 0 and the reason is undefined; with an empty seventh field the
  score is 0; a non-empty eighth field gives the reason as its cleaned text (quotes
  removed, then trimmed), before any fallback; with no eighth field or an empty one, a
  non-empty seventh field on which \<open>parseInt\<close> gives \<open>NaN\<close> gives the reason as its
  cleaned text, and otherwise the reason is undefined.
\<close>

theorem score_and_reason_of_a_parsed_line:
  assumes "newline \<notin> set line"
    and "6 \<le> length (split comma line)"
    and "parseFloat (clean (elem_at (split comma line) 3)) \<noteq> NaN"
  shows "\<exists>c. parseStockCSV line = [c]
     \<and> (length (split comma line) = 6 \<longrightarrow> score c = Some (Fin 0) \<and> reason c = None)
     \<and> (7 \<le> length (split comma line) \<and> split comma line ! 6 = [] \<longrightarrow> score c = Some (Fin 0))
     \<and> (8 \<le> length (split comma line) \<and> split comma line ! 7 \<noteq> [] \<longrightarrow>
          reason c = Some (trim (filter (\<lambda>x. \<not> is_quote x) (split comma line ! 7))))
     \<and> (7 \<le> length (split comma line)
          \<and> (length (split comma line) = 7 \<or> split comma line ! 7 = [])
          \<and> split comma line ! 6 \<noteq> [] \<and> parseInt (split comma line ! 6) = NaN \<longrightarrow>
          reason c = Some (trim (filter (\<lambda>x. \<not> is_quote x) (split comma line ! 6))))
     \<and> (7 \<le> length (split comma line)
          \<and> (length (split comma line) = 7 \<or> split comma line ! 7 = [])
          \<and> (split comma line ! 6 = [] \<or> parseInt (split comma line ! 6) \<noteq> NaN) \<longrightarrow>
          reason c = None)"
proof -
  let ?parts = "split comma line"
  have p: "parseStockCSV line =
           [make_stock ?parts (parseFloat (clean (elem_at ?parts 3)))
              (parseFloat (clean (elem_at ?parts 4)))]"
    by (rule parseStockCSV_single_line [OF assms])
  show ?thesis
    unfolding p
    by (auto simp: make_stock_def elem_at_def clean_Some isNaN_def truthy_part_def truthy_str_def
        parseInt_part_def)
qed

lemma six_field_line_fields:
  "split comma six_field_line = [js ''X'', js ''Y'', js ''Z'', js ''10.5'', js ''1.2'', js ''1T'']"
  by (simp add: six_field_line_def js_def comma_def)

lemma legacy_line_fields:
  "split comma legacy_line
     = [js ''X'', js ''Y'', js ''Z'', js ''10.5'', js ''1.2'', js ''1T'', js ''Good pick'']"
  by (simp add: legacy_line_def js_def comma_def)

lemma empty_score_line_fields:
  "split comma empty_score_line
     = [js ''X'', js ''Y'', js ''Z'', js ''10.5'', js ''1.2'', js ''1T'', []]"
  by (simp add: empty_score_line_def js_def comma_def)

lemma scored_line_fields:
  "split comma scored_line
     = [js ''X'', js ''Y'', js ''Z'', js ''10.5'', js ''1.2'', js ''1T'', js ''87'',
        js '' Strong fundamentals'']"
  by (simp add: scored_line_def js_def comma_def)

lemma price_field_of_demo: "parseFloat (clean (Some (js ''10.5''))) = Fin (21 / 2)"
  by (simp add: parse_eval)

theorem score_and_reason_of_a_parsed_line_witness:
  "(\<exists>c. parseStockCSV six_field_line = [c] \<and> score c = Some (Fin 0) \<and> reason c = None)
   \<and> (\<exists>c. parseStockCSV legacy_line = [c] \<and> reason c = Some (js ''Good pick''))
   \<and> (\<exists>c. parseStockCSV scored_line = [c] \<and> reason c = Some (js ''Strong fundamentals''))
   \<and> (\<exists>c. parseStockCSV empty_score_line = [c] \<and> score c = Some (Fin 0) \<and> reason c = None)"
proof -
  have 1: "\<exists>c. parseStockCSV six_field_line = [c] \<and> score c = Some (Fin 0) \<and> reason c = None"
  proof -
    have a: "newline \<notin> set six_field_line" by (simp add: six_field_line_def js_def newline_def)
    have b: "6 \<le> length (split comma six_field_line)" by (simp add: six_field_line_fields)
    have c: "parseFloat (clean (elem_at (split comma six_field_line) 3)) \<noteq> NaN"
      by (simp add: six_field_line_fields elem_at_def price_field_of_demo)
    have l: "length (split comma six_field_line) = 6" by (simp add: six_field_line_fields)
    show ?thesis using score_and_reason_of_a_parsed_line [OF a b c] l by auto
  qed
  have 2: "\<exists>c. parseStockCSV legacy_line = [c] \<and> reason c = Some (js ''Good pick'')"
  proof -
    have a: "newline \<notin> set legacy_line" by (simp add: legacy_line_def js_def newline_def)
    have b: "6 \<le> length (split comma legacy_line)" by (simp add: legacy_line_fields)
    have c: "parseFloat (clean (elem_at (split comma legacy_line) 3)) \<noteq> NaN"
      by (simp add: legacy_line_fields elem_at_def price_field_of_demo)
    have l: "length (split comma legacy_line) = 7" by (simp add: legacy_line_fields)
    have f: "split comma legacy_line ! 6 = js ''Good pick''" by (simp add: legacy_line_fields)
    have g: "js ''Good pick'' \<noteq> []" "parseInt (js ''Good pick'') = NaN"
      "trim (filter (\<lambda>x. \<not> is_quote x) (js ''Good pick'')) = js ''Good pick''"
      by (simp_all add: parse_eval)
    show ?thesis using score_and_reason_of_a_parsed_line [OF a b c] l f g by auto
  qed
  have 3: "\<exists>c. parseStockCSV scored_line = [c] \<and> reason c = Some (js ''Strong fundamentals'')"
  proof -
    have a: "newline \<notin> set scored_line" by (simp add: scored_line_def js_def newline_def)
    have b: "6 \<le> length (split comma scored_line)" by (simp add: scored_line_fields)
    have c: "parseFloat (clean (elem_at (split comma scored_line) 3)) \<noteq> NaN"
      by (simp add: scored_line_fields elem_at_def price_field_of_demo)
    have l: "length (split comma scored_line) = 8" by (simp add: scored_line_fields)
    have f: "split comma scored_line ! 7 = js '' Strong fundamentals''"
      by (simp add: scored_line_fields)
    have g: "js '' Strong fundamentals'' \<noteq> []"
      "trim (filter (\<lambda>x. \<not> is_quote x) (js '' Strong fundamentals'')) = js ''Strong fundamentals''"
      by (simp_all add: parse_eval)
    show ?thesis using score_and_reason_of_a_parsed_line [OF a b c] l f g by auto
  qed
  have 4: "\<exists>c. parseStockCSV empty_score_line = [c] \<and> score c = Some (Fin 0) \<and> reason c = None"
  proof -
    have a: "newline \<notin> set empty_score_line" by (simp add: empty_score_line_def js_def newline_def)
    have b: "6 \<le> length (split comma empty_score_line)" by (simp add: empty_score_line_fields)
    have c: "parseFloat (clean (elem_at (split comma empty_score_line) 3)) \<noteq> NaN"
      by (simp add: empty_score_line_fields elem_at_def price_field_of_demo)
    have l: "length (split comma empty_score_line) = 7" by (simp add: empty_score_line_fields)
    have f: "split comma empty_score_line ! 6 = []" by (simp add: empty_score_line_fields)
    show ?thesis using score_and_reason_of_a_parsed_line [OF a b c] l f by auto
  qed
  show ?thesis using 1 2 3 4 by blast
qed

text \<open>
  The claim as the specification words it takes the eighth field verbatim and gives the
  score 0 for a seventh field that is no number. On
  \<open>X,Y,Z,10.5,1.2,1T,87, Strong fundamentals\<close> the reason is the field without its
  leading blank, and on \<open>X,Y,Z,10.5,1.2,1T,Good pick\<close> the score is \<open>NaN\<close>:
  \<open>parseInt\<close> is applied to the cleaned field without the test for \<open>NaN\<close> that the
  change percent has.
\<close>

theorem reason_is_cleaned_and_score_is_not_defaulted:
  "reason (hd (parseStockCSV scored_line)) = Some (js ''Strong fundamentals'')
   \<and> split comma scored_line ! 7 = js '' Strong fundamentals''
   \<and> reason (hd (parseStockCSV scored_line)) \<noteq> Some (split comma scored_line ! 7)
   \<and> score (hd (parseStockCSV legacy_line)) = Some NaN
   \<and> score (hd (parseStockCSV legacy_line)) \<noteq> Some (Fin 0)"
proof -
  have n: "newline \<notin> set scored_line" "newline \<notin> set legacy_line"
    by (simp_all add: scored_line_def legacy_line_def js_def newline_def)
  have p: "parseStockCSV scored_line = line_candidates scored_line"
    "parseStockCSV legacy_line = line_candidates legacy_line"
    by (simp_all add: parseStockCSV_by_lines split_no_sep n)
  have i: "comma \<in> set scored_line" "comma \<in> set legacy_line"
    by (simp_all add: scored_line_def legacy_line_def js_def comma_def)
  have r: "reason (hd (line_candidates scored_line)) = Some (js ''Strong fundamentals'')"
    by (simp add: line_candidates_def i scored_line_fields parse_eval)
  have s: "score (hd (line_candidates legacy_line)) = Some NaN"
    by (simp add: line_candidates_def i legacy_line_fields parse_eval)
  have f: "split comma scored_line ! 7 = js '' Strong fundamentals''"
    by (simp add: scored_line_fields)
  show ?thesis unfolding p r s f by (simp add: js_def)
qed

text \<open>
  Claim C6. The parser is a total function of its text: the result is the concatenation,
  in the order of the lines, of what each line contributes alone. A line with fewer than
  six fields, or whose price field parses to \<open>NaN\<close>, contributes nothing; no line
  contributes more than one candidate; and the candidates of a text are those of the
  part before a line break followed by those of the part after it, so that no line stops
  or changes the parsing of the lines after it.
\<close>

theorem malformed_lines_are_skipped:
  "parseStockCSV txt = concat (map line_candidates (split newline txt))
   \<and> (\<forall>line. length (split comma line) < 6
               \<or> isNaN (parseFloat (clean (elem_at (split comma line) 3)))
             \<longrightarrow> line_candidates line = [])
   \<and> (\<forall>line. length (line_candidates line) \<le> 1)
   \<and> parseStockCSV (a @ newline # b) = parseStockCSV a @ parseStockCSV b"
  using parseStockCSV_by_lines line_candidates_rejected line_candidates_at_most_one
    parseStockCSV_append by blast

lemma garbage_text_lines:
  "split newline garbage_text
     = [js ''Here are the picks:'', js ''X,Y,Z,10.5,1.2,1T'', js ''a,b'', js ''P,Q,R,n/a,1,2'',
        js ''M,N,O,7,x,1B'']"
  by (simp add: garbage_text_def js_def newline_def)

theorem malformed_lines_are_skipped_witness:
  "length (split comma (js ''Here are the picks:'')) < 6
   \<and> length (split comma (js ''a,b'')) < 6
   \<and> isNaN (parseFloat (clean (elem_at (split comma (js ''P,Q,R,n/a,1,2'')) 3)))
   \<and> map symbol (parseStockCSV garbage_text) = [js ''X'', js ''M'']
   \<and> map changePercent (parseStockCSV garbage_text) = [Fin (6 / 5), Fin 0]"
proof -
  have h1: "length (split comma (js ''Here are the picks:'')) < 6"
    and h2: "length (split comma (js ''a,b'')) < 6"
    by (simp_all add: js_def comma_def)
  have h3: "isNaN (parseFloat (clean (elem_at (split comma (js ''P,Q,R,n/a,1,2'')) 3)))"
    by (simp add: parse_eval comma_def)
  note t = malformed_lines_are_skipped [of garbage_text "[]" "[]"]
  have r: "line_candidates (js ''Here are the picks:'') = []"
      "line_candidates (js ''a,b'') = []"
      "line_candidates (js ''P,Q,R,n/a,1,2'') = []"
    using t h1 h2 h3 by blast+
  have g: "map symbol (line_candidates (js ''X,Y,Z,10.5,1.2,1T'')) = [js ''X'']"
      "map changePercent (line_candidates (js ''X,Y,Z,10.5,1.2,1T'')) = [Fin (6 / 5)]"
      "map symbol (line_candidates (js ''M,N,O,7,x,1B'')) = [js ''M'']"
      "map changePercent (line_candidates (js ''M,N,O,7,x,1B'')) = [Fin 0]"
    by (simp_all add: line_candidates_def parse_eval comma_def)
  have "parseStockCSV garbage_text = concat (map line_candidates (split newline garbage_text))"
    using t by blast
  then have "parseStockCSV garbage_text
      = line_candidates (js ''X,Y,Z,10.5,1.2,1T'') @ line_candidates (js ''M,N,O,7,x,1B'')"
    by (simp add: garbage_text_lines r)
  then show ?thesis using h1 h2 h3 g by simp
qed

end
